theory Spec2Isabelle
  imports Main
begin

text \<open>
  The chat turn of the DevGear side panel (\<^verbatim>\<open>src/devgear/extension.js\<close>): the provider
  class with \<^verbatim>\<open>getAvailableModels\<close>, \<^verbatim>\<open>getWorkspaceContext\<close> and \<^verbatim>\<open>handleChat\<close>, as
  computations over a state that records every effect in order. The host (the editor,
  the file system, the network, the conversion of values to strings) is a parameter:
  each \<^verbatim>\<open>await\<close> takes the outcome that the host gives, a rejection or a value.

  Three things are taken from the host and not modelled further: \<^verbatim>\<open>postMessage\<close> and
  \<^verbatim>\<open>console.error\<close> do not throw; what a promise rejects with is an error object, read
  through its \<^verbatim>\<open>message\<close>; nothing else runs between the steps of a turn.
  \<^verbatim>\<open>console.log\<close> is left out.
\<close>

section \<open>JavaScript values\<close>

text \<open>
  The bodies that \<^verbatim>\<open>response.json()\<close> yields are JSON values. A JavaScript value that may
  also be \<^verbatim>\<open>undefined\<close> is a \<open>json option\<close>, with \<open>None\<close> for \<^verbatim>\<open>undefined\<close>.
  An object is the list of its properties, each key once. A string is the list of its
  code units.
\<close>

datatype json =
    JNull
  | JBool bool
  | JNum int
  | JStr string
  | JArr "json list"
  | JObj "(string \<times> json) list"

type_synonym jsval = "json option"

text \<open>Thrown values are error objects; the code reads only their \<^verbatim>\<open>message\<close>.\<close>

datatype exn = Error string | TypeError string

fun message :: "exn \<Rightarrow> string" where
  "message (Error m) = m"
| "message (TypeError m) = m"

text \<open>Truthiness, as \<^verbatim>\<open>!x\<close>, \<^verbatim>\<open>if (x)\<close> and \<^verbatim>\<open>x || y\<close> test it.\<close>

fun truthy :: "jsval \<Rightarrow> bool" where
  "truthy None = False"
| "truthy (Some JNull) = False"
| "truthy (Some (JBool b)) = b"
| "truthy (Some (JNum n)) = (n \<noteq> 0)"
| "truthy (Some (JStr s)) = (s \<noteq> [])"
| "truthy (Some (JArr xs)) = True"
| "truthy (Some (JObj fs)) = True"

text \<open>
  \<^verbatim>\<open>v.k\<close> for a property name \<open>k\<close> that no prototype defines (\<^verbatim>\<open>error\<close>, \<^verbatim>\<open>message\<close>,
  \<^verbatim>\<open>models\<close>, \<^verbatim>\<open>name\<close>, \<^verbatim>\<open>candidates\<close>): reading a property of \<^verbatim>\<open>undefined\<close> or
  \<^verbatim>\<open>null\<close> throws a TypeError, an object yields its own property, every other value
  yields \<^verbatim>\<open>undefined\<close>.
\<close>

definition cannot_read :: "string \<Rightarrow> string \<Rightarrow> exn" where
  "cannot_read v k = TypeError (''Cannot read properties of '' @ v @ '' (reading '' @ [CHR 0x27] @ k @ [CHR 0x27] @ '')'')"

fun get_prop :: "jsval \<Rightarrow> string \<Rightarrow> exn + jsval" where
  "get_prop None k = Inl (cannot_read ''undefined'' k)"
| "get_prop (Some JNull) k = Inl (cannot_read ''null'' k)"
| "get_prop (Some (JObj fs)) k = Inr (map_of fs k)"
| "get_prop (Some v) k = Inr None"

text \<open>\<^verbatim>\<open>v?.k\<close>: as \<^verbatim>\<open>v.k\<close>, but \<^verbatim>\<open>undefined\<close> where \<open>v\<close> is \<^verbatim>\<open>undefined\<close> or \<^verbatim>\<open>null\<close>.\<close>

fun opt_prop :: "jsval \<Rightarrow> string \<Rightarrow> jsval" where
  "opt_prop (Some (JObj fs)) k = map_of fs k"
| "opt_prop v k = None"

text \<open>
  \<^verbatim>\<open>v?.[0]\<close>: the first element of an array, the first code unit of a string (as a
  string), the property \<^verbatim>\<open>"0"\<close> of an object, and \<^verbatim>\<open>undefined\<close> otherwise.
\<close>

fun opt_index0 :: "jsval \<Rightarrow> jsval" where
  "opt_index0 (Some (JArr xs)) = (case xs of [] \<Rightarrow> None | x # _ \<Rightarrow> Some x)"
| "opt_index0 (Some (JStr s)) = (case s of [] \<Rightarrow> None | c # _ \<Rightarrow> Some (JStr [c]))"
| "opt_index0 (Some (JObj fs)) = map_of fs ''0''"
| "opt_index0 v = None"

text \<open>\<^verbatim>\<open>s.includes(tok)\<close> on strings: \<open>tok\<close> occurs in \<open>s\<close> as a contiguous run.\<close>

fun str_includes :: "string \<Rightarrow> string \<Rightarrow> bool" where
  "str_includes [] tok = (tok = [])"
| "str_includes (c # cs) tok = (take (length tok) (c # cs) = tok \<or> str_includes cs tok)"

text \<open>
  \<^verbatim>\<open>m.includes(tok)\<close> on any value: the substring test on a string, membership of the
  string \<open>tok\<close> on an array, a TypeError on \<^verbatim>\<open>undefined\<close> and \<^verbatim>\<open>null\<close> (no property can
  be read) and on numbers, booleans and objects (the property is not a function).
\<close>

definition not_a_function :: "string \<Rightarrow> exn" where
  "not_a_function f = TypeError (f @ '' is not a function'')"

fun js_includes :: "jsval \<Rightarrow> string \<Rightarrow> exn + bool" where
  "js_includes None tok = Inl (cannot_read ''undefined'' ''includes'')"
| "js_includes (Some JNull) tok = Inl (cannot_read ''null'' ''includes'')"
| "js_includes (Some (JStr s)) tok = Inr (str_includes s tok)"
| "js_includes (Some (JArr xs)) tok = Inr (JStr tok \<in> set xs)"
| "js_includes (Some v) tok = Inl (not_a_function ''m.includes'')"

text \<open>Decimal rendering of a status code in a template literal.\<close>

fun show_nat :: "nat \<Rightarrow> string" where
  "show_nat n =
     (if n < 10 then [''0123456789'' ! n]
      else show_nat (n div 10) @ [''0123456789'' ! (n mod 10)])"

declare show_nat.simps [simp del]

section \<open>The host: editor, file system, network\<close>

text \<open>
  A response of \<^verbatim>\<open>fetch\<close>: its status, and what awaiting \<^verbatim>\<open>text()\<close> and \<^verbatim>\<open>json()\<close>
  gives (a rejection or the value).
\<close>

record response =
  status :: nat
  text_result :: "exn + string"
  json_result :: "exn + json"

definition ok :: "response \<Rightarrow> bool" where
  "ok r = (200 \<le> status r \<and> status r < 300)"

text \<open>A request: the URL, and for a POST the prompt placed in the body.\<close>

datatype request = GET string | POST string string

record workspace_file =
  fsPath :: string
  relativePath :: string
  document :: "exn + string"

text \<open>
  What the host answers during one turn. \<open>fetch_result n req\<close> is the outcome of the
  request \<open>req\<close> when \<open>n\<close> requests were issued before it. \<open>toStringOther\<close> is the
  runtime's conversion of a value that is not a string into a string.
\<close>

record env =
  showInputBox :: "exn + string option"
  update_result :: "string \<Rightarrow> exn option"
  findFiles :: "exn + workspace_file list"
  fetch_result :: "nat \<Rightarrow> request \<Rightarrow> exn + response"
  toStringOther :: "jsval \<Rightarrow> exn + string"

fun ToString :: "env \<Rightarrow> jsval \<Rightarrow> exn + string" where
  "ToString e (Some (JStr s)) = Inr s"
| "ToString e v = toStringOther e v"

text \<open>\<^verbatim>\<open>new Error(v)\<close>: the message is empty for \<^verbatim>\<open>undefined\<close>, else the string of \<open>v\<close>.\<close>

fun new_Error :: "env \<Rightarrow> jsval \<Rightarrow> exn + exn" where
  "new_Error e None = Inr (Error [])"
| "new_Error e v = (case ToString e v of Inl x \<Rightarrow> Inl x | Inr s \<Rightarrow> Inr (Error s))"

section \<open>Effects and state\<close>

type_synonym webviewView = nat

datatype event = Loading bool | Response json | ErrorMessage string | ClearChat

datatype effect =
    PostMessage webviewView event
  | Fetch request
  | InputBox
  | ConfigUpdate string
  | FindFiles
  | OpenTextDocument string
  | ConsoleError string "exn option"

text \<open>
  The state of a turn: what was done so far, in order; the stored setting
  \<^verbatim>\<open>devgear.geminiApiKey\<close>; the local variable \<^verbatim>\<open>model\<close>.
\<close>

record state =
  trace :: "effect list"
  geminiApiKey :: "string option"
  model :: jsval

type_synonym 'a js = "state \<Rightarrow> (exn + 'a) \<times> state"

definition js_return :: "'a \<Rightarrow> 'a js" where
  "js_return x = (\<lambda>s. (Inr x, s))"

definition js_throw :: "exn \<Rightarrow> 'a js" where
  "js_throw e = (\<lambda>s. (Inl e, s))"

definition js_bind :: "'a js \<Rightarrow> ('a \<Rightarrow> 'b js) \<Rightarrow> 'b js" where
  "js_bind m f = (\<lambda>s. case m s of (Inl e, s') \<Rightarrow> (Inl e, s') | (Inr x, s') \<Rightarrow> f x s')"

definition try_catch :: "'a js \<Rightarrow> (exn \<Rightarrow> 'a js) \<Rightarrow> 'a js" where
  "try_catch m h = (\<lambda>s. case m s of (Inl e, s') \<Rightarrow> h e s' | (Inr x, s') \<Rightarrow> (Inr x, s'))"

definition try_finally :: "'a js \<Rightarrow> unit js \<Rightarrow> 'a js" where
  "try_finally m fin =
     (\<lambda>s. case m s of (r, s') \<Rightarrow>
        (case fin s' of (Inl e, s'') \<Rightarrow> (Inl e, s'') | (Inr u, s'') \<Rightarrow> (r, s'')))"

text \<open>Awaiting a promise that the host has settled.\<close>

definition await :: "exn + 'a \<Rightarrow> 'a js" where
  "await r = (\<lambda>s. (r, s))"

definition emit :: "effect \<Rightarrow> unit js" where
  "emit x = (\<lambda>s. (Inr (), s\<lparr>trace := trace s @ [x]\<rparr>))"

definition postMessage :: "webviewView \<Rightarrow> event \<Rightarrow> unit js" where
  "postMessage v ev = emit (PostMessage v ev)"

text \<open>What a trace shows: the requests issued and the events posted, in order.\<close>

fun requests :: "effect list \<Rightarrow> request list" where
  "requests [] = []"
| "requests (Fetch r # xs) = r # requests xs"
| "requests (x # xs) = requests xs"

fun posted :: "effect list \<Rightarrow> event list" where
  "posted [] = []"
| "posted (PostMessage v ev # xs) = ev # posted xs"
| "posted (x # xs) = posted xs"

definition fetch :: "env \<Rightarrow> request \<Rightarrow> response js" where
  "fetch e req =
     (\<lambda>s. (fetch_result e (length (requests (trace s))) req,
           s\<lparr>trace := trace s @ [Fetch req]\<rparr>))"

definition config_get :: "string option js" where
  "config_get = (\<lambda>s. (Inr (geminiApiKey s), s))"

definition config_update :: "env \<Rightarrow> string \<Rightarrow> unit js" where
  "config_update e k =
     (\<lambda>s. case update_result e k of
             Some x \<Rightarrow> (Inl x, s\<lparr>trace := trace s @ [ConfigUpdate k]\<rparr>)
           | None \<Rightarrow> (Inr (), s\<lparr>trace := trace s @ [ConfigUpdate k], geminiApiKey := Some k\<rparr>))"

definition get_model :: "jsval js" where
  "get_model = (\<lambda>s. (Inr (model s), s))"

definition set_model :: "jsval \<Rightarrow> unit js" where
  "set_model m = (\<lambda>s. (Inr (), s\<lparr>model := m\<rparr>))"

section \<open>The chat view provider\<close>

record provider =
  view :: "webviewView option"

text \<open>The constructor leaves \<^verbatim>\<open>_view\<close> null; \<^verbatim>\<open>resolveWebviewView\<close> stores the view.\<close>

definition constructor :: provider where
  "constructor = \<lparr>view = None\<rparr>"

definition resolveWebviewView :: "provider \<Rightarrow> webviewView \<Rightarrow> provider" where
  "resolveWebviewView this webviewView = this\<lparr>view := Some webviewView\<rparr>"

subsection \<open>getAvailableModels\<close>

definition models_url :: "string \<Rightarrow> string" where
  "models_url apiKey = ''https://generativelanguage.googleapis.com/v1beta/models?key='' @ apiKey"

text \<open>\<^verbatim>\<open>model => model.name\<close>, mapped over an array; the first element that throws ends it.\<close>

fun map_name :: "json list \<Rightarrow> exn + jsval list" where
  "map_name [] = Inr []"
| "map_name (x # xs) =
     (case get_prop (Some x) ''name'' of
        Inl e \<Rightarrow> Inl e
      | Inr n \<Rightarrow> (case map_name xs of Inl e \<Rightarrow> Inl e | Inr ns \<Rightarrow> Inr (n # ns)))"

text \<open>
  \<^verbatim>\<open>data.models.map(model => model.name)\<close>: only an array has a \<^verbatim>\<open>map\<close> method; on
  \<^verbatim>\<open>undefined\<close> and \<^verbatim>\<open>null\<close> the property cannot be read, on any other value it is not
  a function.
\<close>

definition model_names :: "json \<Rightarrow> exn + jsval list" where
  "model_names data =
     (case get_prop (Some data) ''models'' of
        Inl e \<Rightarrow> Inl e
      | Inr None \<Rightarrow> Inl (cannot_read ''undefined'' ''map'')
      | Inr (Some JNull) \<Rightarrow> Inl (cannot_read ''null'' ''map'')
      | Inr (Some (JArr xs)) \<Rightarrow> map_name xs
      | Inr (Some v) \<Rightarrow> Inl (not_a_function ''data.models.map''))"

definition getAvailableModels :: "env \<Rightarrow> string \<Rightarrow> jsval list js" where
  "getAvailableModels e apiKey =
     try_catch
       (js_bind (fetch e (GET (models_url apiKey))) (\<lambda>response.
          if \<not> ok response
          then js_throw (Error (''Failed to fetch models: '' @ show_nat (status response)))
          else js_bind (await (json_result response)) (\<lambda>data.
               await (model_names data))))
       (\<lambda>error.
          js_bind (emit (ConsoleError ''Error fetching models:'' (Some error))) (\<lambda>_.
          js_return []))"

subsection \<open>getWorkspaceContext\<close>

definition file_block :: "workspace_file \<Rightarrow> string \<Rightarrow> string" where
  "file_block f text =
     ''\<newline>--- FILE: '' @ relativePath f @ '' ---\<newline>'' @ text @ ''\<newline>''"

text \<open>The loop over the files: a file that cannot be opened is logged and skipped.\<close>

fun read_files :: "workspace_file list \<Rightarrow> string \<Rightarrow> string js" where
  "read_files [] context = js_return context"
| "read_files (f # fs) context =
     js_bind (emit (OpenTextDocument (fsPath f))) (\<lambda>_.
       case document f of
         Inr text \<Rightarrow> read_files fs (context @ file_block f text)
       | Inl x \<Rightarrow>
           js_bind (emit (ConsoleError (''Failed reading '' @ fsPath f) (Some x))) (\<lambda>_.
           read_files fs context))"

definition getWorkspaceContext :: "env \<Rightarrow> string js" where
  "getWorkspaceContext e =
     js_bind (emit FindFiles) (\<lambda>_.
     js_bind (await (findFiles e)) (\<lambda>files.
     read_files files []))"

subsection \<open>handleChat\<close>

definition generate_url :: "string \<Rightarrow> string \<Rightarrow> string" where
  "generate_url m apiKey =
     ''https://generativelanguage.googleapis.com/v1beta/models/'' @ m
       @ '':generateContent?key='' @ apiKey"

definition fullPrompt :: "string \<Rightarrow> string \<Rightarrow> string" where
  "fullPrompt codeContext userMessage =
     ''You are DevGear AI. The user is asking about the codebase.\<newline>''
       @ ''Here is relevant code context:\<newline>'' @ codeContext @ ''\<newline>\<newline>''
       @ ''User question: '' @ userMessage"

text \<open>
  The request for the model held in \<^verbatim>\<open>model\<close>: the template literal of the URL
  converts it to a string.
\<close>

definition generateContent :: "env \<Rightarrow> string \<Rightarrow> string \<Rightarrow> response js" where
  "generateContent e apiKey prompt =
     js_bind get_model (\<lambda>m.
     js_bind (await (ToString e m)) (\<lambda>ms.
     fetch e (POST (generate_url ms apiKey) prompt)))"

text \<open>\<^verbatim>\<open>throw new Error(`API Error: ${response.status} - ${await response.text()}`)\<close>\<close>

definition throw_api_error :: "response \<Rightarrow> 'a js" where
  "throw_api_error r =
     js_bind (await (text_result r)) (\<lambda>body.
     js_throw (Error (''API Error: '' @ show_nat (status r) @ '' - '' @ body)))"

text \<open>\<^verbatim>\<open>data.candidates?.[0]?.content?.parts?.[0]?.text\<close>\<close>

definition first_text :: "json \<Rightarrow> exn + jsval" where
  "first_text data =
     (case get_prop (Some data) ''candidates'' of
        Inl x \<Rightarrow> Inl x
      | Inr candidates \<Rightarrow>
          Inr (opt_prop (opt_index0 (opt_prop (opt_prop (opt_index0 candidates)
                 ''content'') ''parts'')) ''text''))"

text \<open>\<^verbatim>\<open>t || 'No response received'\<close>\<close>

definition or_placeholder :: "jsval \<Rightarrow> json" where
  "or_placeholder t =
     (case t of
        Some j \<Rightarrow> if truthy t then j else JStr ''No response received''
      | None \<Rightarrow> JStr ''No response received'')"

text \<open>
  What follows a response whose \<^verbatim>\<open>ok\<close> holds, the same text for the first response
  and for the retry: parse the body, throw the message of a truthy \<^verbatim>\<open>error\<close>, else post
  the answer.
\<close>

definition post_answer :: "env \<Rightarrow> webviewView \<Rightarrow> response \<Rightarrow> unit js" where
  "post_answer e v r =
     js_bind (await (json_result r)) (\<lambda>data.
     js_bind (await (get_prop (Some data) ''error'')) (\<lambda>err.
       if truthy err
       then js_bind (await (get_prop err ''message'')) (\<lambda>msg.
            js_bind (await (new_Error e msg)) js_throw)
       else js_bind (await (first_text data)) (\<lambda>t.
            postMessage v (Response (or_placeholder t)))))"

text \<open>\<^verbatim>\<open>models.find(m => m.includes(tok))\<close>\<close>

fun find_includes :: "string \<Rightarrow> jsval list \<Rightarrow> exn + jsval" where
  "find_includes tok [] = Inr None"
| "find_includes tok (m # ms) =
     (case js_includes m tok of
        Inl x \<Rightarrow> Inl x
      | Inr b \<Rightarrow> if b then Inr m else find_includes tok ms)"

text \<open>\<^verbatim>\<open>models[0]\<close>\<close>

fun index0 :: "jsval list \<Rightarrow> jsval" where
  "index0 [] = None"
| "index0 (m # ms) = m"

text \<open>
  The choice of the fallback model (lines 150, 151 and 173): on a list that is not
  empty, \<^verbatim>\<open>models.find(m => m.includes(tok)) || models[0]\<close>; on the empty list, the error
  of the else branch. The code has the token \<^verbatim>\<open>'gemini-1.5'\<close>.
\<close>

definition chooseFallback :: "string \<Rightarrow> jsval list \<Rightarrow> exn + jsval" where
  "chooseFallback tok models =
     (if length models > 0
      then (case find_includes tok models of
              Inl x \<Rightarrow> Inl x
            | Inr found \<Rightarrow> Inr (if truthy found then found else index0 models))
      else Inl (Error ''No available models found. Please check your API key or region.''))"

text \<open>The body of the inner \<^verbatim>\<open>try\<close> (lines 139 to 190).\<close>

definition request_block :: "env \<Rightarrow> webviewView \<Rightarrow> string \<Rightarrow> string \<Rightarrow> unit js" where
  "request_block e v apiKey prompt =
     js_bind (generateContent e apiKey prompt) (\<lambda>response.
       if \<not> ok response then
         (if status response = 404 then
            js_bind (getAvailableModels e apiKey) (\<lambda>models.
            js_bind (await (chooseFallback ''gemini-1.5'' models)) (\<lambda>chosen.
            js_bind (set_model chosen) (\<lambda>_.
            js_bind (generateContent e apiKey prompt) (\<lambda>retryResponse.
              if \<not> ok retryResponse then throw_api_error retryResponse
              else post_answer e v retryResponse))))
          else throw_api_error response)
       else post_answer e v response)"

text \<open>Lines 132 to 193: the model, the context, the prompt, the inner \<^verbatim>\<open>try\<close>/\<^verbatim>\<open>catch\<close>.\<close>

definition default_model :: string where
  "default_model = ''gemini-1.5-flash''"

definition ask_model :: "env \<Rightarrow> webviewView \<Rightarrow> string \<Rightarrow> string \<Rightarrow> unit js" where
  "ask_model e v apiKey userMessage =
     js_bind (set_model (Some (JStr default_model))) (\<lambda>_.
     js_bind (getWorkspaceContext e) (\<lambda>codeContext.
     try_catch (request_block e v apiKey (fullPrompt codeContext userMessage))
       (\<lambda>error.
          js_bind get_model (\<lambda>m.
          js_bind (await (ToString e m)) (\<lambda>ms.
          js_throw (Error (''Failed with model '' @ ms @ '': '' @ message error)))))))"

text \<open>
  \<^verbatim>\<open>if (!apiKey) { a } else { b }\<close> on a value that is a string or \<^verbatim>\<open>undefined\<close>: the
  empty string and \<^verbatim>\<open>undefined\<close> are falsy.
\<close>

fun if_no_key :: "string option \<Rightarrow> 'a js \<Rightarrow> (string \<Rightarrow> 'a js) \<Rightarrow> 'a js" where
  "if_no_key None a b = a"
| "if_no_key (Some k) a b = (if k = [] then a else b k)"

definition key_required :: string where
  "key_required =
     ''API key is required. Set it in Settings or use the command ''
       @ [CHR 0x22] @ ''DevGear AI: Set Gemini API Key'' @ [CHR 0x22] @ ''.''"

text \<open>The body of the outer \<^verbatim>\<open>try\<close> (lines 110 to 193).\<close>

definition chat_block :: "env \<Rightarrow> webviewView \<Rightarrow> string \<Rightarrow> unit js" where
  "chat_block e v userMessage =
     js_bind (postMessage v (Loading True)) (\<lambda>_.
     js_bind config_get (\<lambda>stored.
       if_no_key stored
         (js_bind (emit InputBox) (\<lambda>_.
          js_bind (await (showInputBox e)) (\<lambda>entered.
            if_no_key entered
              (postMessage v (ErrorMessage key_required))
              (\<lambda>apiKey.
                 js_bind (config_update e apiKey) (\<lambda>_.
                 ask_model e v apiKey userMessage)))))
         (\<lambda>apiKey. ask_model e v apiKey userMessage)))"

definition handleChat :: "provider \<Rightarrow> env \<Rightarrow> string \<Rightarrow> unit js" where
  "handleChat this e userMessage =
     (case view this of
        None \<Rightarrow> emit (ConsoleError ''Webview not initialized'' None)
      | Some v \<Rightarrow>
          try_finally
            (try_catch (chat_block e v userMessage)
               (\<lambda>error.
                  js_bind (emit (ConsoleError ''Chat error:'' (Some error))) (\<lambda>_.
                  postMessage v (ErrorMessage (''Error: '' @ message error)))))
            (postMessage v (Loading False)))"

text \<open>
  The handler that \<^verbatim>\<open>resolveWebviewView\<close> registers (lines 52 to 63), for the provider
  as it is after line 45.
\<close>

datatype webview_message = Chat string | Clear | Other

definition onDidReceiveMessage :: "provider \<Rightarrow> env \<Rightarrow> webview_message \<Rightarrow> unit js" where
  "onDidReceiveMessage this e data =
     (case data of
        Chat userMessage \<Rightarrow> handleChat this e userMessage
      | Clear \<Rightarrow>
          (case view this of
             None \<Rightarrow> js_throw (cannot_read ''null'' ''webview'')
           | Some v \<Rightarrow> postMessage v ClearChat)
      | Other \<Rightarrow> js_return ())"

section \<open>Observations\<close>

text \<open>The effects that a computation adds to the trace of the state it starts in.\<close>

definition effects_of :: "'a js \<Rightarrow> state \<Rightarrow> effect list" where
  "effects_of m s = drop (length (trace s)) (trace (snd (m s)))"

text \<open>The events that end a turn.\<close>

fun terminal :: "event \<Rightarrow> bool" where
  "terminal (Response j) = True"
| "terminal (ErrorMessage m) = True"
| "terminal ev = False"

fun is_loading :: "event \<Rightarrow> bool" where
  "is_loading (Loading b) = True"
| "is_loading ev = False"

text \<open>
  A request succeeds when it resolves with a response whose \<^verbatim>\<open>ok\<close> holds and whose body
  parses to a value with no truthy \<^verbatim>\<open>error\<close>; in every other case it fails.
\<close>

definition succeeds :: "exn + response \<Rightarrow> bool" where
  "succeeds outcome =
     (case outcome of
        Inl x \<Rightarrow> False
      | Inr r \<Rightarrow> ok r \<and>
          (case json_result r of
             Inl x \<Rightarrow> False
           | Inr data \<Rightarrow>
               (case get_prop (Some data) ''error'' of
                  Inl x \<Rightarrow> False
                | Inr err \<Rightarrow> \<not> truthy err)))"

text \<open>\<^verbatim>\<open>undefined\<close> or \<^verbatim>\<open>null\<close>: what \<^verbatim>\<open>?.\<close> stops at.\<close>

fun nullish :: "jsval \<Rightarrow> bool" where
  "nullish None = True"
| "nullish (Some JNull) = True"
| "nullish v = False"

text \<open>
  The listing names its models by strings: every \<^verbatim>\<open>name\<close> that the outcome of the
  listing request yields is a string.
\<close>

fun is_string :: "jsval \<Rightarrow> bool" where
  "is_string (Some (JStr s)) = True"
| "is_string v = False"

definition string_names :: "exn + response \<Rightarrow> bool" where
  "string_names outcome =
     (case outcome of
        Inl x \<Rightarrow> True
      | Inr r \<Rightarrow>
          (case json_result r of
             Inl x \<Rightarrow> True
           | Inr data \<Rightarrow>
               (case model_names data of Inl x \<Rightarrow> True | Inr ns \<Rightarrow> list_all is_string ns)))"

text \<open>The envelope of the inner \<^verbatim>\<open>catch\<close> (line 192).\<close>

definition envelope :: "string \<Rightarrow> string \<Rightarrow> string" where
  "envelope m cause = ''Failed with model '' @ m @ '': '' @ cause"

section \<open>Example hosts\<close>

text \<open>The state a turn starts in, with the stored setting \<open>key\<close>.\<close>

definition fresh :: "string option \<Rightarrow> state" where
  "fresh key = \<lparr>trace = [], geminiApiKey = key, model = None\<rparr>"

text \<open>
  A host with an empty workspace, whose input box is dismissed, and whose \<open>n\<close>-th
  request has the outcome \<open>f n\<close>.
\<close>

definition example_host :: "(nat \<Rightarrow> exn + response) \<Rightarrow> env" where
  "example_host f =
     \<lparr>showInputBox = Inr None, update_result = (\<lambda>k. None), findFiles = Inr [],
      fetch_result = (\<lambda>n req. f n), toStringOther = (\<lambda>v. Inr ''[object]'')\<rparr>"

definition json_response :: "nat \<Rightarrow> json \<Rightarrow> exn + response" where
  "json_response st j =
     Inr \<lparr>status = st, text_result = Inr ''{}'', json_result = Inr j\<rparr>"

definition text_response :: "nat \<Rightarrow> string \<Rightarrow> exn + response" where
  "text_response st body =
     Inr \<lparr>status = st, text_result = Inr body,
          json_result = Inl (Error ''Unexpected token in JSON'')\<rparr>"

text \<open>A body with one candidate whose first part has the text \<open>t\<close>.\<close>

definition answer_body :: "json \<Rightarrow> json" where
  "answer_body t =
     JObj [(''candidates'',
       JArr [JObj [(''content'', JObj [(''parts'', JArr [JObj [(''text'', t)]])])]])]"

text \<open>A listing of the models with the names \<open>ns\<close>.\<close>

definition listing_body :: "string list \<Rightarrow> json" where
  "listing_body ns = JObj [(''models'', JArr (map (\<lambda>n. JObj [(''name'', JStr n)]) ns))]"

text \<open>
  The default model is not found, the listing names two models, and the retry has the
  outcome \<open>r\<close>.
\<close>

definition fallback_host :: "exn + response \<Rightarrow> env" where
  "fallback_host r =
     example_host (\<lambda>n.
       if n = 0 then text_response 404 ''not found''
       else if n = 1 then json_response 200 (listing_body [''models/m-1.0'', ''models/gemini-1.5-pro''])
       else r)"

section \<open>Reasoning about computations\<close>

lemma posted_append [simp]: "posted (xs @ ys) = posted xs @ posted ys"
  by (induction xs rule: posted.induct) auto

lemma requests_append [simp]: "requests (xs @ ys) = requests xs @ requests ys"
  by (induction xs rule: requests.induct) auto

lemma effects_ofI: "trace (snd (m s)) = trace s @ t \<Longrightarrow> effects_of m s = t"
  by (simp add: effects_of_def)

lemma js_bindE:
  assumes "js_bind m f s = (r, s')"
  obtains (throws) x where "m s = (Inl x, s')" "r = Inl x"
        | (returns) a s1 where "m s = (Inr a, s1)" "f a s1 = (r, s')"
  using assms by (auto simp: js_bind_def split: prod.splits sum.splits)

lemma try_catchE:
  assumes "try_catch m h s = (r, s')"
  obtains (caught) x s1 where "m s = (Inl x, s1)" "h x s1 = (r, s')"
        | (passed) a where "m s = (Inr a, s')" "r = Inr a"
  using assms by (auto simp: try_catch_def split: prod.splits sum.splits)

section \<open>The view that was never resolved\<close>

text \<open>
  C10. When the stored view is null, \<open>handleChat\<close> logs to the console and returns: the
  state changes by that log entry alone, and no event is posted.
\<close>

theorem handleChat_without_view:
  "view this = None \<Longrightarrow>
     handleChat this e userMessage s =
       (Inr (), s\<lparr>trace := trace s @ [ConsoleError ''Webview not initialized'' None]\<rparr>)
     \<and> posted (effects_of (handleChat this e userMessage) s) = []
     \<and> requests (effects_of (handleChat this e userMessage) s) = []"
  by (simp add: handleChat_def emit_def effects_of_def)

theorem handleChat_without_view_witness:
  "view constructor = None
   \<and> posted (effects_of (handleChat constructor (example_host (\<lambda>n. json_response 200 JNull)) ''hello'')
        (fresh (Some ''key''))) = []"
  using handleChat_without_view [of constructor "example_host (\<lambda>n. json_response 200 JNull)" "''hello''" "fresh (Some ''key'')"]
  by (simp add: constructor_def)

section \<open>The missing key\<close>

text \<open>
  C9. When the stored key is absent or empty and the input box yields no key or an empty
  one, the turn posts loading, the error that a key is required, and the end of loading.
  No request is issued, and the state changes in its trace alone: the stored setting is
  as it was. The same holds, with the message of the rejection, when the input box
  rejects.
\<close>

theorem missing_key_aborts:
  assumes "geminiApiKey s = None \<or> geminiApiKey s = Some []"
  shows "(showInputBox e = Inr None \<or> showInputBox e = Inr (Some [])
        \<longrightarrow> handleChat (resolveWebviewView this w) e userMessage s =
             (Inr (), s\<lparr>trace := trace s @
                [PostMessage w (Loading True), InputBox,
                 PostMessage w (ErrorMessage key_required), PostMessage w (Loading False)]\<rparr>))
     \<and> (showInputBox e = Inl x
        \<longrightarrow> handleChat (resolveWebviewView this w) e userMessage s =
             (Inr (), s\<lparr>trace := trace s @
                [PostMessage w (Loading True), InputBox,
                 ConsoleError ''Chat error:'' (Some x),
                 PostMessage w (ErrorMessage (''Error: '' @ message x)),
                 PostMessage w (Loading False)]\<rparr>))"
  using assms
  by (auto simp: handleChat_def resolveWebviewView_def chat_block_def js_bind_def try_finally_def
      try_catch_def postMessage_def emit_def config_get_def await_def)

theorem missing_key_aborts_witness:
  "(geminiApiKey (fresh None) = None \<or> geminiApiKey (fresh None) = Some [])
   \<and> (showInputBox (example_host (\<lambda>n. json_response 200 JNull)) = Inr None
        \<or> showInputBox (example_host (\<lambda>n. json_response 200 JNull)) = Inr (Some []))
   \<and> handleChat (resolveWebviewView constructor 0) (example_host (\<lambda>n. json_response 200 JNull))
        ''hello'' (fresh None) =
       (Inr (), \<lparr>trace = [PostMessage 0 (Loading True), InputBox,
                  PostMessage 0 (ErrorMessage key_required), PostMessage 0 (Loading False)],
                geminiApiKey = None, model = None\<rparr>)
   \<and> showInputBox
        ((example_host (\<lambda>n. json_response 200 JNull))\<lparr>showInputBox := Inl (Error ''closed'')\<rparr>)
       = Inl (Error ''closed'')
   \<and> handleChat (resolveWebviewView constructor 0)
        ((example_host (\<lambda>n. json_response 200 JNull))\<lparr>showInputBox := Inl (Error ''closed'')\<rparr>)
        ''hello'' (fresh (Some [])) =
       (Inr (), \<lparr>trace = [PostMessage 0 (Loading True), InputBox,
                  ConsoleError ''Chat error:'' (Some (Error ''closed'')),
                  PostMessage 0 (ErrorMessage ''Error: closed''), PostMessage 0 (Loading False)],
                geminiApiKey = Some [], model = None\<rparr>)"
  using missing_key_aborts [of "fresh None" "example_host (\<lambda>n. json_response 200 JNull)"
      constructor 0 "''hello''" "Error ''closed''"]
    missing_key_aborts [of "fresh (Some [])"
      "(example_host (\<lambda>n. json_response 200 JNull))\<lparr>showInputBox := Inl (Error ''closed'')\<rparr>"
      constructor 0 "''hello''" "Error ''closed''"]
  by (simp add: fresh_def example_host_def)

section \<open>The choice of the fallback model\<close>

lemma str_includes_iff: "str_includes s tok \<longleftrightarrow> (\<exists>p q. s = p @ tok @ q)"
proof (induction s)
  case Nil
  then show ?case by auto
next
  case (Cons c cs)
  show ?case
  proof
    assume "str_includes (c # cs) tok"
    then consider "take (length tok) (c # cs) = tok" | "str_includes cs tok" by auto
    then show "\<exists>p q. c # cs = p @ tok @ q"
    proof cases
      case 1
      then have "c # cs = [] @ tok @ drop (length tok) (c # cs)"
        by (metis append_Nil append_take_drop_id)
      then show ?thesis by blast
    next
      case 2
      with Cons.IH obtain p q where "cs = p @ tok @ q" by blast
      then have "c # cs = (c # p) @ tok @ q" by simp
      then show ?thesis by blast
    qed
  next
    assume "\<exists>p q. c # cs = p @ tok @ q"
    then obtain p q where pq: "c # cs = p @ tok @ q" by blast
    show "str_includes (c # cs) tok"
    proof (cases p)
      case Nil
      with pq have "take (length tok) (c # cs) = tok" by simp
      then show ?thesis by simp
    next
      case (Cons a p')
      with pq have "cs = p' @ tok @ q" by simp
      with Cons.IH have "str_includes cs tok" by blast
      then show ?thesis by simp
    qed
  qed
qed

lemma find_includes_strings:
  "find_includes tok (map (\<lambda>i. Some (JStr i)) ids) =
     Inr (map_option JStr (find (\<lambda>i. str_includes i tok) ids))"
  by (induction ids) auto

lemma find_first_empty:
  assumes "find (\<lambda>i. str_includes i tok) (i # ids) = Some []"
  shows "i = []"
proof (rule ccontr)
  assume "i \<noteq> []"
  from assms have "str_includes [] tok"
    by (metis (mono_tags, lifting) find_Some_iff)
  then have "tok = []" by simp
  then have "i = [] @ tok @ i" by simp
  then have "str_includes i tok" unfolding str_includes_iff by blast
  with assms have "i = []" by simp
  with \<open>i \<noteq> []\<close> show False by simp
qed

text \<open>
  C2. On a list of identifiers that is not empty, the choice is the first identifier that
  contains the token, and the first identifier when none contains it; on the empty list
  it is the error that no models are available. The list of the example, with the token
  \<open>1.5\<close>, gives \<open>x-1.5\<close>.
\<close>

theorem chooseFallback_strings:
  "chooseFallback tok (map (\<lambda>i. Some (JStr i)) (i # ids)) =
     Inr (Some (JStr (case find (\<lambda>x. \<exists>p q. x = p @ tok @ q) (i # ids) of
                        Some x \<Rightarrow> x | None \<Rightarrow> i)))
   \<and> chooseFallback tok [] =
        Inl (Error ''No available models found. Please check your API key or region.'')
   \<and> chooseFallback ''1.5'' [Some (JStr ''x-1.0''), Some (JStr ''x-1.5''), Some (JStr ''y-2.0'')] =
        Inr (Some (JStr ''x-1.5''))"
proof (intro conjI)
  let ?found = "find (\<lambda>x. str_includes x tok) (i # ids)"
  have same: "find (\<lambda>x. \<exists>p q. x = p @ tok @ q) (i # ids) = ?found"
    by (simp only: str_includes_iff [symmetric])
  have "chooseFallback tok (map (\<lambda>i. Some (JStr i)) (i # ids)) =
          Inr (Some (JStr (case ?found of Some x \<Rightarrow> x | None \<Rightarrow> i)))"
  proof (cases ?found)
    case None
    then show ?thesis
      unfolding chooseFallback_def find_includes_strings by simp
  next
    case (Some x)
    show ?thesis
    proof (cases "x = []")
      case True
      with Some have "i = []" using find_first_empty by blast
      with Some True show ?thesis
        unfolding chooseFallback_def find_includes_strings by simp
    next
      case False
      with Some show ?thesis
        unfolding chooseFallback_def find_includes_strings by simp
    qed
  qed
  with same show "chooseFallback tok (map (\<lambda>i. Some (JStr i)) (i # ids)) =
     Inr (Some (JStr (case find (\<lambda>x. \<exists>p q. x = p @ tok @ q) (i # ids) of
                        Some x \<Rightarrow> x | None \<Rightarrow> i)))"
    by simp
next
  show "chooseFallback tok [] =
        Inl (Error ''No available models found. Please check your API key or region.'')"
    by (simp add: chooseFallback_def)
next
  show "chooseFallback ''1.5'' [Some (JStr ''x-1.0''), Some (JStr ''x-1.5''), Some (JStr ''y-2.0'')] =
        Inr (Some (JStr ''x-1.5''))"
    by (simp add: chooseFallback_def)
qed


text \<open>
  The token of the code is \<open>gemini-1.5\<close>: on the list of the example no identifier
  contains it, and the choice is the first one.
\<close>

lemma chooseFallback_gemini_token:
  "chooseFallback ''gemini-1.5''
     [Some (JStr ''x-1.0''), Some (JStr ''x-1.5''), Some (JStr ''y-2.0'')] =
     Inr (Some (JStr ''x-1.0''))"
  by (simp add: chooseFallback_def)

section \<open>The shape of a turn\<close>

lemma getAvailableModels_shape:
  assumes "getAvailableModels e k s = (r, s')"
  shows "\<exists>ms t. r = Inr ms \<and> trace s' = trace s @ Fetch (GET (models_url k)) # t
      \<and> posted t = [] \<and> requests t = []
      \<and> geminiApiKey s' = geminiApiKey s \<and> model s' = model s"
  using assms
  by (auto simp: getAvailableModels_def fetch_def emit_def js_return_def js_throw_def await_def
      elim!: js_bindE try_catchE split: if_splits)

lemma getAvailableModels_listing:
  assumes "getAvailableModels e k s = (r, s')"
  shows "\<exists>ms. r = Inr ms \<and> model s' = model s
      \<and> (string_names (fetch_result e (length (requests (trace s))) (GET (models_url k)))
            \<longrightarrow> list_all is_string ms)"
  using assms
  by (auto simp: getAvailableModels_def fetch_def emit_def js_return_def js_throw_def await_def
      string_names_def elim!: js_bindE try_catchE split: if_splits)

lemma post_answer_shape:
  assumes "post_answer e v resp s = (r, s')"
  shows "(\<exists>x. r = Inl x \<and> s' = s) \<or>
         (\<exists>j. r = Inr () \<and> s' = s\<lparr>trace := trace s @ [PostMessage v (Response j)]\<rparr>
              \<and> (ok resp \<longrightarrow> succeeds (Inr resp)))"
  using assms
  by (fastforce simp: post_answer_def postMessage_def emit_def js_return_def js_throw_def
      await_def succeeds_def elim!: js_bindE split: if_splits)

lemma throw_api_error_shape:
  assumes "throw_api_error resp s = (r, s')"
  shows "(\<exists>x. r = Inl x) \<and> s' = s"
  using assms
  by (auto simp: throw_api_error_def js_throw_def await_def elim!: js_bindE)

lemma generateContent_shape:
  assumes "generateContent e k p s = (r, s')"
  shows "(\<exists>x. r = Inl x \<and> s' = s \<and> ToString e (model s) = Inl x) \<or>
         (\<exists>m. ToString e (model s) = Inr m
              \<and> fetch_result e (length (requests (trace s))) (POST (generate_url m k) p) = r
              \<and> s' = s\<lparr>trace := trace s @ [Fetch (POST (generate_url m k) p)]\<rparr>)"
  using assms
  by (auto simp: generateContent_def fetch_def get_model_def js_throw_def await_def
      elim!: js_bindE)

lemma find_includes_is_string:
  "list_all is_string ms \<Longrightarrow> find_includes tok ms = Inr c \<Longrightarrow> c = None \<or> is_string c"
  by (induction ms) (auto split: sum.splits if_splits)

lemma chooseFallback_is_string:
  assumes "list_all is_string ms" and "chooseFallback tok ms = Inr c"
  shows "is_string c"
proof (cases ms)
  case Nil
  with assms show ?thesis by (simp add: chooseFallback_def)
next
  case (Cons m ms')
  with assms(1) have m: "is_string m" by simp
  from assms(2) Cons obtain found where
    found: "find_includes tok ms = Inr found"
    and c: "c = (if truthy found then found else m)"
    by (auto simp: chooseFallback_def split: sum.splits)
  from find_includes_is_string [OF assms(1) found] have "found = None \<or> is_string found" .
  with c m show ?thesis by auto
qed

lemma request_block_shape:
  assumes "request_block e v k p s = (r, s')" and "model s = Some (JStr m)"
  shows "\<exists>t. trace s' = trace s @ Fetch (POST (generate_url m k) p) # t
     \<and> geminiApiKey s' = geminiApiKey s
     \<and> ((r = Inr () \<and> (\<exists>j. posted t = [Response j])) \<or> ((\<exists>x. r = Inl x) \<and> posted t = []))
     \<and> ((requests t = [] \<and> model s' = model s)
        \<or> (requests t = [GET (models_url k)] \<and> (\<exists>x. r = Inl x)
             \<and> (model s' = model s \<or> (\<exists>x. ToString e (model s') = Inl x)))
        \<or> (\<exists>m'. requests t = [GET (models_url k), POST (generate_url m' k) p]
             \<and> ToString e (model s') = Inr m'
             \<and> (r = Inr () \<longrightarrow>
                  succeeds (fetch_result e (length (requests (trace s)) + 2)
                    (POST (generate_url m' k) p)))))
     \<and> (requests t \<noteq> [] \<longrightarrow>
          (\<exists>r0. fetch_result e (length (requests (trace s))) (POST (generate_url m k) p) = Inr r0
                \<and> status r0 = 404))"
  using assms
  unfolding request_block_def
  by (auto elim!: js_bindE
      dest!: generateContent_shape getAvailableModels_shape post_answer_shape throw_api_error_shape
      simp: await_def set_model_def split: if_splits)

lemma request_block_model:
  assumes "request_block e v k p s = (r, s')" and "is_string (model s)"
    and "string_names (fetch_result e (length (requests (trace s)) + 1) (GET (models_url k)))"
  shows "is_string (model s')"
  using assms
  unfolding request_block_def
  apply (auto elim!: js_bindE
      dest!: generateContent_shape getAvailableModels_listing post_answer_shape
        throw_api_error_shape
      simp: await_def set_model_def split: if_splits)
      apply (blast intro: chooseFallback_is_string)+
  done


lemma read_files_shape:
  assumes "read_files fs c s = (r, s')"
  shows "\<exists>ctx t. r = Inr ctx \<and> trace s' = trace s @ t \<and> posted t = [] \<and> requests t = []
      \<and> geminiApiKey s' = geminiApiKey s \<and> model s' = model s"
  using assms
proof (induction fs arbitrary: c s)
  case Nil
  then show ?case by (auto simp: js_return_def)
next
  case (Cons f fs)
  show ?case
  proof (cases "document f")
    case (Inl x)
    with Cons.prems obtain s1 where
      s1: "s1 = s\<lparr>trace := trace s @ [OpenTextDocument (fsPath f),
             ConsoleError (''Failed reading '' @ fsPath f) (Some x)]\<rparr>"
      and run: "read_files fs c s1 = (r, s')"
      by (auto simp: emit_def elim!: js_bindE)
    from Cons.IH [OF run] s1 show ?thesis by auto
  next
    case (Inr content)
    with Cons.prems obtain s1 where
      s1: "s1 = s\<lparr>trace := trace s @ [OpenTextDocument (fsPath f)]\<rparr>"
      and run: "read_files fs (c @ file_block f content) s1 = (r, s')"
      by (auto simp: emit_def elim!: js_bindE)
    from Cons.IH [OF run] s1 show ?thesis by auto
  qed
qed

lemma getWorkspaceContext_shape:
  assumes "getWorkspaceContext e s = (r, s')"
  shows "\<exists>t. trace s' = trace s @ t \<and> posted t = [] \<and> requests t = []
      \<and> geminiApiKey s' = geminiApiKey s \<and> model s' = model s"
  using assms
  by (fastforce simp: getWorkspaceContext_def emit_def await_def elim!: js_bindE
      dest!: read_files_shape)

lemma ask_model_cases:
  assumes "ask_model e v k userMessage s = (r, s')"
  obtains
    (context_failed) x where
      "getWorkspaceContext e (s\<lparr>model := Some (JStr default_model)\<rparr>) = (Inl x, s')"
      "r = Inl x"
  | (answered) ctx s1 where
      "getWorkspaceContext e (s\<lparr>model := Some (JStr default_model)\<rparr>) = (Inr ctx, s1)"
      "request_block e v k (fullPrompt ctx userMessage) s1 = (Inr (), s')"
      "r = Inr ()"
  | (failed) ctx s1 x where
      "getWorkspaceContext e (s\<lparr>model := Some (JStr default_model)\<rparr>) = (Inr ctx, s1)"
      "request_block e v k (fullPrompt ctx userMessage) s1 = (Inl x, s')"
      "r = (case ToString e (model s') of
              Inl y \<Rightarrow> Inl y
            | Inr m \<Rightarrow> Inl (Error (envelope m (message x))))"
  using assms
  unfolding ask_model_def
  by (elim js_bindE try_catchE)
     (auto simp: set_model_def get_model_def await_def js_throw_def envelope_def
       split: sum.splits)

lemma ask_model_shape:
  assumes "ask_model e v k userMessage s = (r, s')"
  shows "\<exists>t. trace s' = trace s @ t \<and> geminiApiKey s' = geminiApiKey s
     \<and> ((r = Inr () \<and> (\<exists>j. posted t = [Response j])) \<or> ((\<exists>x. r = Inl x) \<and> posted t = []))
     \<and> (requests t = []
        \<or> (\<exists>p. requests t = [POST (generate_url default_model k) p])
        \<or> (\<exists>p. requests t = [POST (generate_url default_model k) p, GET (models_url k)]
              \<and> (\<exists>x. r = Inl x))
        \<or> (\<exists>p m. requests t = [POST (generate_url default_model k) p, GET (models_url k),
                                 POST (generate_url m k) p]
              \<and> (r = Inr () \<longrightarrow>
                   succeeds (fetch_result e (length (requests (trace s)) + 2)
                     (POST (generate_url m k) p)))))
     \<and> (2 \<le> length (requests t) \<longrightarrow>
          (\<exists>p r0. fetch_result e (length (requests (trace s)))
                     (POST (generate_url default_model k) p) = Inr r0 \<and> status r0 = 404))"
  using assms
proof (cases rule: ask_model_cases)
  case (context_failed x)
  from getWorkspaceContext_shape [OF context_failed(1)] context_failed(2)
  show ?thesis by auto
next
  case (answered ctx s1)
  from getWorkspaceContext_shape [OF answered(1)] obtain t1 where
    t1: "trace s1 = trace s @ t1" "posted t1 = []" "requests t1 = []"
      "geminiApiKey s1 = geminiApiKey s" "model s1 = Some (JStr default_model)"
    by auto
  from request_block_shape [OF answered(2) t1(5)] t1 answered(3)
  show ?thesis
    by clarsimp fastforce
next
  case (failed ctx s1 x)
  from getWorkspaceContext_shape [OF failed(1)] obtain t1 where
    t1: "trace s1 = trace s @ t1" "posted t1 = []" "requests t1 = []"
      "geminiApiKey s1 = geminiApiKey s" "model s1 = Some (JStr default_model)"
    by auto
  from failed(3) have r: "\<exists>y. r = Inl y" by (auto split: sum.splits)
  from request_block_shape [OF failed(2) t1(5)] t1 r
  show ?thesis
    by clarsimp fastforce
qed


lemma ask_model_envelope:
  assumes run: "ask_model e v k userMessage s = (Inl x, s')"
    and names: "string_names (fetch_result e (length (requests (trace s)) + 1) (GET (models_url k)))"
  shows "\<exists>t. trace s' = trace s @ t
     \<and> (requests t = []
        \<or> (\<exists>p cause. (requests t = [POST (generate_url default_model k) p]
                        \<or> requests t = [POST (generate_url default_model k) p, GET (models_url k)])
              \<and> x = Error (envelope default_model cause))
        \<or> (\<exists>p m cause. requests t = [POST (generate_url default_model k) p, GET (models_url k),
                                       POST (generate_url m k) p]
              \<and> x = Error (envelope m cause)))"
  using run
proof (cases rule: ask_model_cases)
  case (context_failed y)
  from getWorkspaceContext_shape [OF context_failed(1)] show ?thesis by auto
next
  case (answered ctx s1)
  then show ?thesis by simp
next
  case (failed ctx s1 y)
  from getWorkspaceContext_shape [OF failed(1)] obtain t1 where
    t1: "trace s1 = trace s @ t1" "posted t1 = []" "requests t1 = []"
      "geminiApiKey s1 = geminiApiKey s" "model s1 = Some (JStr default_model)"
    by auto
  from t1 names have
    "string_names (fetch_result e (length (requests (trace s1)) + 1) (GET (models_url k)))"
    by simp
  with request_block_model [OF failed(2)] t1(5) have "is_string (model s')" by simp
  then obtain m where m: "model s' = Some (JStr m)"
    by (cases "model s'" rule: is_string.cases) auto
  with failed(3) have x: "x = Error (envelope m (message y))" by simp
  from request_block_shape [OF failed(2) t1(5)] t1 m x
  show ?thesis by clarsimp fastforce
qed

lemma chat_block_cases:
  assumes "chat_block e v userMessage s = (r, s')"
  obtains
    (no_key) "r = Inr ()"
      "s' = s\<lparr>trace := trace s @
         [PostMessage v (Loading True), InputBox, PostMessage v (ErrorMessage key_required)]\<rparr>"
  | (input_failed) x where "r = Inl x"
      "s' = s\<lparr>trace := trace s @ [PostMessage v (Loading True), InputBox]\<rparr>"
  | (update_failed) x k where "r = Inl x"
      "s' = s\<lparr>trace := trace s @ [PostMessage v (Loading True), InputBox, ConfigUpdate k]\<rparr>"
  | (stored) k where "geminiApiKey s = Some k" "k \<noteq> []"
      "ask_model e v k userMessage (s\<lparr>trace := trace s @ [PostMessage v (Loading True)]\<rparr>)
         = (r, s')"
  | (entered) k where "showInputBox e = Inr (Some k)" "k \<noteq> []"
      "ask_model e v k userMessage
         (s\<lparr>trace := trace s @ [PostMessage v (Loading True), InputBox, ConfigUpdate k],
            geminiApiKey := Some k\<rparr>) = (r, s')"
proof -
  let ?prompt = "js_bind (emit InputBox) (\<lambda>_.
          js_bind (await (showInputBox e)) (\<lambda>entered.
            if_no_key entered
              (postMessage v (ErrorMessage key_required))
              (\<lambda>apiKey.
                 js_bind (config_update e apiKey) (\<lambda>_.
                 ask_model e v apiKey userMessage))))"
  let ?s0 = "s\<lparr>trace := trace s @ [PostMessage v (Loading True)]\<rparr>"
  have start: "chat_block e v userMessage s =
      if_no_key (geminiApiKey s) ?prompt (\<lambda>apiKey. ask_model e v apiKey userMessage) ?s0"
    by (simp add: chat_block_def js_bind_def postMessage_def emit_def config_get_def)
  have prompt: thesis if "?prompt ?s0 = (r, s')"
  proof (cases "showInputBox e")
    case (Inl x)
    with that have "r = Inl x"
      "s' = s\<lparr>trace := trace s @ [PostMessage v (Loading True), InputBox]\<rparr>"
      by (auto simp: js_bind_def emit_def await_def)
    then show ?thesis by (rule input_failed)
  next
    case (Inr entered)
    show ?thesis
    proof (cases "entered = None \<or> entered = Some []")
      case True
      with that Inr have "r = Inr ()"
        "s' = s\<lparr>trace := trace s @
           [PostMessage v (Loading True), InputBox, PostMessage v (ErrorMessage key_required)]\<rparr>"
        by (auto simp: js_bind_def emit_def await_def postMessage_def)
      then show ?thesis by (rule no_key)
    next
      case False
      then obtain k where k: "entered = Some k" "k \<noteq> []" by auto
      show ?thesis
      proof (cases "update_result e k")
        case None
        with that Inr k have
          "ask_model e v k userMessage
             (s\<lparr>trace := trace s @ [PostMessage v (Loading True), InputBox, ConfigUpdate k],
                geminiApiKey := Some k\<rparr>) = (r, s')"
          by (auto simp: js_bind_def emit_def await_def config_update_def)
        with Inr k show ?thesis by (auto intro: entered)
      next
        case (Some x)
        with that Inr k have "r = Inl x"
          "s' = s\<lparr>trace := trace s @ [PostMessage v (Loading True), InputBox, ConfigUpdate k]\<rparr>"
          by (auto simp: js_bind_def emit_def await_def config_update_def)
        then show ?thesis by (rule update_failed)
      qed
    qed
  qed
  show thesis
  proof (cases "geminiApiKey s")
    case None
    with assms start have "?prompt ?s0 = (r, s')" by simp
    then show ?thesis by (rule prompt)
  next
    case (Some k)
    show ?thesis
    proof (cases "k = []")
      case True
      with Some assms start have "?prompt ?s0 = (r, s')" by simp
      then show ?thesis by (rule prompt)
    next
      case False
      with Some assms start have
        "ask_model e v k userMessage ?s0 = (r, s')" by simp
      with Some False show ?thesis by (rule stored)
    qed
  qed
qed


lemma chat_block_shape:
  assumes "chat_block e v userMessage s = (r, s')"
  shows "\<exists>t. trace s' = trace s @ PostMessage v (Loading True) # t
     \<and> ((r = Inr () \<and> (\<exists>x. posted t = [x] \<and> terminal x)) \<or> ((\<exists>x. r = Inl x) \<and> posted t = []))
     \<and> (requests t = []
        \<or> (\<exists>k p. requests t = [POST (generate_url default_model k) p]
              \<or> (requests t = [POST (generate_url default_model k) p, GET (models_url k)]
                   \<and> (\<exists>x. r = Inl x))
              \<or> (\<exists>m. requests t = [POST (generate_url default_model k) p, GET (models_url k),
                                     POST (generate_url m k) p]
                   \<and> (r = Inr () \<longrightarrow>
                        succeeds (fetch_result e (length (requests (trace s)) + 2)
                          (POST (generate_url m k) p))))))
     \<and> (2 \<le> length (requests t) \<longrightarrow>
          (\<exists>k p r0. fetch_result e (length (requests (trace s)))
                       (POST (generate_url default_model k) p) = Inr r0 \<and> status r0 = 404))"
  using assms
proof (cases rule: chat_block_cases)
  case no_key
  then show ?thesis by simp
next
  case (input_failed x)
  then show ?thesis by simp
next
  case (update_failed x k)
  then show ?thesis by simp
next
  case (stored k)
  from ask_model_shape [OF stored(3)] show ?thesis
    by clarsimp fastforce
next
  case (entered k)
  from ask_model_shape [OF entered(3)] show ?thesis
    by clarsimp fastforce
qed

lemma chat_block_envelope:
  assumes run: "chat_block e v userMessage s = (Inl x, s')"
    and names: "\<And>k. string_names
        (fetch_result e (length (requests (trace s)) + 1) (GET (models_url k)))"
  shows "\<exists>t. trace s' = trace s @ PostMessage v (Loading True) # t
     \<and> (requests t = []
        \<or> (\<exists>k p cause. (requests t = [POST (generate_url default_model k) p]
                        \<or> requests t = [POST (generate_url default_model k) p, GET (models_url k)])
              \<and> x = Error (envelope default_model cause))
        \<or> (\<exists>k p m cause. requests t = [POST (generate_url default_model k) p, GET (models_url k),
                                       POST (generate_url m k) p]
              \<and> x = Error (envelope m cause)))"
  using run
proof (cases rule: chat_block_cases)
  case no_key
  then show ?thesis by simp
next
  case (input_failed y)
  then show ?thesis by simp
next
  case (update_failed y k)
  then show ?thesis by simp
next
  case (stored k)
  from names [of k] have
    "string_names (fetch_result e
       (length (requests (trace (s\<lparr>trace := trace s @ [PostMessage v (Loading True)]\<rparr>))) + 1)
       (GET (models_url k)))"
    by simp
  from ask_model_envelope [OF stored(3) this] show ?thesis
    by clarsimp fastforce
next
  case (entered k)
  from names [of k] have
    "string_names (fetch_result e
       (length (requests (trace
          (s\<lparr>trace := trace s @ [PostMessage v (Loading True), InputBox, ConfigUpdate k],
             geminiApiKey := Some k\<rparr>))) + 1)
       (GET (models_url k)))"
    by simp
  from ask_model_envelope [OF entered(3) this] show ?thesis
    by clarsimp fastforce
qed

lemma handleChat_run:
  assumes "view this = Some v"
  shows "handleChat this e userMessage s =
     (case chat_block e v userMessage s of
        (Inr u, s1) \<Rightarrow> (Inr (), s1\<lparr>trace := trace s1 @ [PostMessage v (Loading False)]\<rparr>)
      | (Inl x, s1) \<Rightarrow>
          (Inr (), s1\<lparr>trace := trace s1 @
             [ConsoleError ''Chat error:'' (Some x),
              PostMessage v (ErrorMessage (''Error: '' @ message x)),
              PostMessage v (Loading False)]\<rparr>))"
  using assms
  by (simp add: handleChat_def try_finally_def try_catch_def js_bind_def postMessage_def emit_def
      split: prod.splits sum.splits)

lemma handleChat_shape:
  assumes "view this = Some v"
  shows "\<exists>t x. effects_of (handleChat this e userMessage) s =
         PostMessage v (Loading True) # t @ [PostMessage v (Loading False)]
     \<and> posted t = [x] \<and> terminal x
     \<and> (requests t = []
        \<or> (\<exists>k p. requests t = [POST (generate_url default_model k) p]
              \<or> requests t = [POST (generate_url default_model k) p, GET (models_url k)]
              \<or> (\<exists>m. requests t = [POST (generate_url default_model k) p, GET (models_url k),
                                     POST (generate_url m k) p]
                   \<and> (\<not> succeeds (fetch_result e (length (requests (trace s)) + 2)
                          (POST (generate_url m k) p)) \<longrightarrow> (\<exists>y. x = ErrorMessage y)))))
     \<and> (2 \<le> length (requests t) \<longrightarrow>
          (\<exists>k p r0. fetch_result e (length (requests (trace s)))
                       (POST (generate_url default_model k) p) = Inr r0 \<and> status r0 = 404))"
proof -
  obtain r s1 where chat: "chat_block e v userMessage s = (r, s1)"
    by (cases "chat_block e v userMessage s")
  from chat_block_shape [OF chat] obtain t where
    t: "trace s1 = trace s @ PostMessage v (Loading True) # t"
    and out: "(r = Inr () \<and> (\<exists>x. posted t = [x] \<and> terminal x)) \<or> ((\<exists>x. r = Inl x) \<and> posted t = [])"
    and reqs: "requests t = []
        \<or> (\<exists>k p. requests t = [POST (generate_url default_model k) p]
              \<or> (requests t = [POST (generate_url default_model k) p, GET (models_url k)]
                   \<and> (\<exists>x. r = Inl x))
              \<or> (\<exists>m. requests t = [POST (generate_url default_model k) p, GET (models_url k),
                                     POST (generate_url m k) p]
                   \<and> (r = Inr () \<longrightarrow>
                        succeeds (fetch_result e (length (requests (trace s)) + 2)
                          (POST (generate_url m k) p)))))"
    and nf: "2 \<le> length (requests t) \<longrightarrow>
          (\<exists>k p r0. fetch_result e (length (requests (trace s)))
                       (POST (generate_url default_model k) p) = Inr r0 \<and> status r0 = 404)"
    by blast
  show ?thesis
  proof (cases r)
    case (Inr u)
    with out obtain x where x: "posted t = [x]" "terminal x" by auto
    from Inr chat t have
      "effects_of (handleChat this e userMessage) s =
         PostMessage v (Loading True) # t @ [PostMessage v (Loading False)]"
      by (simp add: handleChat_run [OF assms] effects_of_def)
    with x reqs nf Inr show ?thesis by fastforce
  next
    case (Inl y)
    with out have p: "posted t = []" by auto
    let ?t = "t @ [ConsoleError ''Chat error:'' (Some y),
                   PostMessage v (ErrorMessage (''Error: '' @ message y))]"
    from Inl chat t have
      "effects_of (handleChat this e userMessage) s =
         PostMessage v (Loading True) # ?t @ [PostMessage v (Loading False)]"
      by (simp add: handleChat_run [OF assms] effects_of_def)
    moreover from p have "posted ?t = [ErrorMessage (''Error: '' @ message y)]" by simp
    moreover have "requests ?t = requests t" by simp
    ultimately show ?thesis using reqs nf
      apply (intro exI [of _ ?t] exI [of _ "ErrorMessage (''Error: '' @ message y)"])
      apply (simp only: terminal.simps)
      apply fastforce
      done
  qed
qed


lemmas monad_defs = js_bind_def js_return_def js_throw_def try_catch_def try_finally_def
  await_def emit_def postMessage_def fetch_def config_get_def config_update_def get_model_def
  set_model_def

lemmas program_defs = onDidReceiveMessage_def handleChat_def chat_block_def ask_model_def
  request_block_def generateContent_def throw_api_error_def post_answer_def
  getAvailableModels_def getWorkspaceContext_def chooseFallback_def model_names_def
  first_text_def or_placeholder_def resolveWebviewView_def constructor_def

lemmas example_defs = fresh_def example_host_def fallback_host_def json_response_def
  text_response_def answer_body_def listing_body_def ok_def effects_of_def
  generate_url_def models_url_def fullPrompt_def default_model_def envelope_def

lemma chat_turn:
  "onDidReceiveMessage (resolveWebviewView this w) e (Chat userMessage) =
     handleChat (resolveWebviewView this w) e userMessage"
  by (simp add: onDidReceiveMessage_def)

lemma view_resolved: "view (resolveWebviewView this w) = Some w"
  by (simp add: resolveWebviewView_def)

section \<open>One outcome for each turn\<close>

text \<open>
  C6. A chat turn is the handling of a chat message by the handler of a resolved view.
  Whatever the host answers, the events it posts are loading, one event that is a
  response or an error, and the end of loading: one terminal event, never two.
\<close>

theorem one_terminal_event:
  "\<exists>x. terminal x
     \<and> posted (effects_of (onDidReceiveMessage (resolveWebviewView this w) e (Chat userMessage)) s)
         = [Loading True, x, Loading False]"
proof -
  from handleChat_shape [OF view_resolved, of this w e userMessage s]
  obtain t x where
    "effects_of (handleChat (resolveWebviewView this w) e userMessage) s =
       PostMessage w (Loading True) # t @ [PostMessage w (Loading False)]"
    and "posted t = [x]" and "terminal x"
    by blast
  then show ?thesis by (auto simp: chat_turn)
qed

theorem one_terminal_event_witness:
  "terminal (ErrorMessage (''Error: '' @ envelope ''models/gemini-1.5-pro'' ''API Error: 500 - down''))
   \<and> posted (effects_of (onDidReceiveMessage (resolveWebviewView constructor 0)
         (fallback_host (text_response 500 ''down'')) (Chat ''hello'')) (fresh (Some ''key'')))
       = [Loading True,
          ErrorMessage (''Error: '' @ envelope ''models/gemini-1.5-pro'' ''API Error: 500 - down''),
          Loading False]"
  using one_terminal_event [of constructor 0 "fallback_host (text_response 500 ''down'')"
      "''hello''" "fresh (Some ''key'')"]
  by (simp add: monad_defs program_defs example_defs show_nat.simps)

section \<open>Loading\<close>

text \<open>
  C7. The first effect of a chat turn is the event that loading started, so it comes
  before every request; the last effect is the event that loading ended; no other
  loading event is posted in between, whatever the host answers.
\<close>

theorem loading_brackets_turn:
  "\<exists>t. effects_of (onDidReceiveMessage (resolveWebviewView this w) e (Chat userMessage)) s
        = PostMessage w (Loading True) # t @ [PostMessage w (Loading False)]
     \<and> filter is_loading (posted t) = []"
proof -
  from handleChat_shape [OF view_resolved, of this w e userMessage s]
  obtain t x where
    "effects_of (handleChat (resolveWebviewView this w) e userMessage) s =
       PostMessage w (Loading True) # t @ [PostMessage w (Loading False)]"
    and "posted t = [x]" and "terminal x"
    by blast
  moreover from \<open>terminal x\<close> have "\<not> is_loading x" by (cases x) auto
  ultimately show ?thesis by (auto simp: chat_turn)
qed

theorem loading_brackets_turn_witness:
  "effects_of (onDidReceiveMessage (resolveWebviewView constructor 0)
      (example_host (\<lambda>n. json_response 200 (answer_body (JStr ''ok'')))) (Chat ''hello''))
      (fresh (Some ''key''))
    = [PostMessage 0 (Loading True), FindFiles,
       Fetch (POST (generate_url default_model ''key'') (fullPrompt [] ''hello'')),
       PostMessage 0 (Response (JStr ''ok'')), PostMessage 0 (Loading False)]"
  using loading_brackets_turn [of constructor 0
      "example_host (\<lambda>n. json_response 200 (answer_body (JStr ''ok'')))" "''hello''"
      "fresh (Some ''key'')"]
  by (simp add: monad_defs program_defs example_defs)

section \<open>One retry\<close>

text \<open>
  C1. The requests of a chat turn are none, or the request for the default model, or
  that request and the listing, or those two and one request for the chosen model:
  never a second listing, never a third generateContent request. When the retry does
  not succeed (it is rejected, or its status is not 2xx, 404 included, or its body does
  not parse or has a truthy error), the turn ends with an error event.
\<close>

theorem at_most_one_retry:
  "\<exists>k p.
     requests (effects_of (onDidReceiveMessage (resolveWebviewView this w) e (Chat userMessage)) s) = []
   \<or> requests (effects_of (onDidReceiveMessage (resolveWebviewView this w) e (Chat userMessage)) s)
        = [POST (generate_url default_model k) p]
   \<or> requests (effects_of (onDidReceiveMessage (resolveWebviewView this w) e (Chat userMessage)) s)
        = [POST (generate_url default_model k) p, GET (models_url k)]
   \<or> (\<exists>m.
        requests (effects_of (onDidReceiveMessage (resolveWebviewView this w) e (Chat userMessage)) s)
          = [POST (generate_url default_model k) p, GET (models_url k), POST (generate_url m k) p]
        \<and> (\<not> succeeds (fetch_result e (length (requests (trace s)) + 2)
                (POST (generate_url m k) p))
             \<longrightarrow> (\<exists>y. posted (effects_of
                    (onDidReceiveMessage (resolveWebviewView this w) e (Chat userMessage)) s)
                  = [Loading True, ErrorMessage y, Loading False])))"
proof -
  from handleChat_shape [OF view_resolved, of this w e userMessage s]
  obtain t x where
    eff: "effects_of (handleChat (resolveWebviewView this w) e userMessage) s =
       PostMessage w (Loading True) # t @ [PostMessage w (Loading False)]"
    and x: "posted t = [x]"
    and reqs: "requests t = []
        \<or> (\<exists>k p. requests t = [POST (generate_url default_model k) p]
              \<or> requests t = [POST (generate_url default_model k) p, GET (models_url k)]
              \<or> (\<exists>m. requests t = [POST (generate_url default_model k) p, GET (models_url k),
                                     POST (generate_url m k) p]
                   \<and> (\<not> succeeds (fetch_result e (length (requests (trace s)) + 2)
                          (POST (generate_url m k) p)) \<longrightarrow> (\<exists>y. x = ErrorMessage y))))"
    by blast
  from eff have r: "requests (effects_of (handleChat (resolveWebviewView this w) e userMessage) s)
      = requests t"
    by simp
  from eff x have p: "posted (effects_of (handleChat (resolveWebviewView this w) e userMessage) s)
      = [Loading True, x, Loading False]"
    by simp
  from reqs show ?thesis
    unfolding chat_turn r p by blast
qed

theorem at_most_one_retry_witness:
  "\<not> succeeds (fetch_result (fallback_host (text_response 404 ''gone'')) 2
        (POST (generate_url ''models/gemini-1.5-pro'' ''key'') (fullPrompt [] ''hello'')))
   \<and> requests (effects_of (onDidReceiveMessage (resolveWebviewView constructor 0)
         (fallback_host (text_response 404 ''gone'')) (Chat ''hello'')) (fresh (Some ''key'')))
       = [POST (generate_url default_model ''key'') (fullPrompt [] ''hello''),
          GET (models_url ''key''),
          POST (generate_url ''models/gemini-1.5-pro'' ''key'') (fullPrompt [] ''hello'')]
   \<and> posted (effects_of (onDidReceiveMessage (resolveWebviewView constructor 0)
         (fallback_host (text_response 404 ''gone'')) (Chat ''hello'')) (fresh (Some ''key'')))
       = [Loading True,
          ErrorMessage (''Error: '' @ envelope ''models/gemini-1.5-pro'' ''API Error: 404 - gone''),
          Loading False]"
  using at_most_one_retry [of constructor 0 "fallback_host (text_response 404 ''gone'')"
      "''hello''" "fresh (Some ''key'')"]
  by (simp add: monad_defs program_defs example_defs succeeds_def show_nat.simps)


section \<open>The answer of a response\<close>

lemma request_block_ok:
  assumes "model s = Some (JStr m)"
    and "fetch_result e (length (requests (trace s))) (POST (generate_url m k) p) = Inr r"
    and "ok r"
  shows "request_block e v k p s =
     post_answer e v r (s\<lparr>trace := trace s @ [Fetch (POST (generate_url m k) p)]\<rparr>)"
  using assms
  by (simp add: request_block_def generateContent_def js_bind_def get_model_def await_def
      fetch_def)

lemma post_answer_object:
  assumes "json_result r = Inr (JObj fs)" and "\<not> truthy (map_of fs ''error'')"
  shows "post_answer e v r s =
     (Inr (), s\<lparr>trace := trace s @
        [PostMessage v (Response (or_placeholder
           (opt_prop (opt_index0 (opt_prop (opt_prop (opt_index0 (map_of fs ''candidates''))
              ''content'') ''parts'')) ''text'')))]\<rparr>)"
  using assms
  by (simp add: post_answer_def first_text_def js_bind_def await_def postMessage_def emit_def)

lemma nullish_opt_prop: "nullish v \<Longrightarrow> opt_prop v k = None"
  by (cases v rule: nullish.cases) auto

lemma nullish_opt_index0: "nullish v \<Longrightarrow> opt_index0 v = None"
  by (cases v rule: nullish.cases) auto

lemma nullish_placeholder: "nullish v \<Longrightarrow> or_placeholder v = JStr ''No response received''"
  by (cases v rule: nullish.cases) (auto simp: or_placeholder_def)

text \<open>
  C5. A response whose \<open>ok\<close> holds (status 200 among them) and whose body is an object
  with no truthy error: when the candidates, the first candidate, its content, the
  parts, the first part or its text is missing (\<open>undefined\<close> or \<open>null\<close>), the answer
  posted is the placeholder, and nothing is thrown. This holds for what follows any
  such response, and so for the first request of a turn.
\<close>

theorem placeholder_for_missing_text:
  assumes "ok r" and "json_result r = Inr (JObj fs)" and "\<not> truthy (map_of fs ''error'')"
    and "map_of fs ''candidates'' = candidates"
    and "opt_index0 candidates = candidate"
    and "opt_prop candidate ''content'' = content"
    and "opt_prop content ''parts'' = parts"
    and "opt_index0 parts = part"
    and "opt_prop part ''text'' = its_text"
    and "nullish candidates \<or> nullish candidate \<or> nullish content \<or> nullish parts
         \<or> nullish part \<or> nullish its_text"
  shows "post_answer e v r s =
       (Inr (), s\<lparr>trace := trace s @
          [PostMessage v (Response (JStr ''No response received''))]\<rparr>)
     \<and> (model s = Some (JStr m)
          \<and> fetch_result e (length (requests (trace s))) (POST (generate_url m k) p) = Inr r
        \<longrightarrow> request_block e v k p s =
             (Inr (), s\<lparr>trace := trace s @
                [Fetch (POST (generate_url m k) p),
                 PostMessage v (Response (JStr ''No response received''))]\<rparr>))"
proof -
  from assms(4-10) have "nullish its_text"
    using nullish_opt_prop nullish_opt_index0 by (metis nullish.simps(1))
  then have "or_placeholder its_text = JStr ''No response received''"
    by (rule nullish_placeholder)
  with assms(4-9) have answer: "\<And>s. post_answer e v r s =
       (Inr (), s\<lparr>trace := trace s @
          [PostMessage v (Response (JStr ''No response received''))]\<rparr>)"
    using post_answer_object [OF assms(2,3)] by simp
  show ?thesis
  proof (intro conjI impI)
    show "post_answer e v r s =
       (Inr (), s\<lparr>trace := trace s @
          [PostMessage v (Response (JStr ''No response received''))]\<rparr>)"
      by (rule answer)
  next
    assume "model s = Some (JStr m)
      \<and> fetch_result e (length (requests (trace s))) (POST (generate_url m k) p) = Inr r"
    then show "request_block e v k p s =
             (Inr (), s\<lparr>trace := trace s @
                [Fetch (POST (generate_url m k) p),
                 PostMessage v (Response (JStr ''No response received''))]\<rparr>)"
      using request_block_ok [of s m e k p r v] assms(1) by (simp add: answer)
  qed
qed

theorem placeholder_for_missing_text_witness:
  "ok \<lparr>status = 200, text_result = Inr ''{}'', json_result = Inr (JObj [(''candidates'', JArr [])])\<rparr>
   \<and> nullish (opt_index0 (Some (JArr [])))
   \<and> request_block (example_host (\<lambda>n. json_response 200 (JObj [(''candidates'', JArr [])]))) 0
        ''key'' ''prompt''
        \<lparr>trace = [], geminiApiKey = Some ''key'', model = Some (JStr default_model)\<rparr>
      = (Inr (),
         \<lparr>trace = [Fetch (POST (generate_url default_model ''key'') ''prompt''),
                   PostMessage 0 (Response (JStr ''No response received''))],
          geminiApiKey = Some ''key'', model = Some (JStr default_model)\<rparr>)"
  using placeholder_for_missing_text [of
      "\<lparr>status = 200, text_result = Inr ''{}'', json_result = Inr (JObj [(''candidates'', JArr [])])\<rparr>"
      "[(''candidates'', JArr [])]" "Some (JArr [])" None None None None None
      "example_host (\<lambda>n. json_response 200 (JObj [(''candidates'', JArr [])]))" 0
      "\<lparr>trace = [], geminiApiKey = Some ''key'', model = Some (JStr default_model)\<rparr>"
      default_model "''key''" "''prompt''"]
  by (simp add: ok_def example_host_def json_response_def)

text \<open>
  A body that is the literal \<open>null\<close> is no object: reading its \<open>error\<close> raises a
  TypeError, which the turn reports as every other error.
\<close>

lemma null_body_raises:
  "json_result r = Inr JNull \<Longrightarrow>
     post_answer e v r s = (Inl (cannot_read ''null'' ''error''), s)"
  by (simp add: post_answer_def js_bind_def await_def)

text \<open>
  C4, as amended. When the first part of the first candidate has a text that is truthy
  (a string that is not empty, in particular), the answer posted is that text,
  unchanged. When the text is the empty string, the answer posted is the placeholder.
\<close>

theorem text_returned_when_not_empty:
  assumes "ok r" and "json_result r = Inr (JObj fs)" and "\<not> truthy (map_of fs ''error'')"
    and "map_of fs ''candidates'' = candidates"
    and "opt_index0 candidates = candidate"
    and "opt_prop candidate ''content'' = content"
    and "opt_prop content ''parts'' = parts"
    and "opt_index0 parts = part"
    and "opt_prop part ''text'' = Some t"
  shows "(truthy (Some t) \<longrightarrow>
          post_answer e v r s = (Inr (), s\<lparr>trace := trace s @ [PostMessage v (Response t)]\<rparr>)
          \<and> (model s = Some (JStr m)
               \<and> fetch_result e (length (requests (trace s))) (POST (generate_url m k) p) = Inr r
             \<longrightarrow> request_block e v k p s =
                  (Inr (), s\<lparr>trace := trace s @
                     [Fetch (POST (generate_url m k) p), PostMessage v (Response t)]\<rparr>)))
     \<and> (t = JStr [] \<longrightarrow>
          post_answer e v r s =
            (Inr (), s\<lparr>trace := trace s @
               [PostMessage v (Response (JStr ''No response received''))]\<rparr>))"
proof -
  from assms(4-9) have answer: "\<And>s. post_answer e v r s =
       (Inr (), s\<lparr>trace := trace s @ [PostMessage v (Response (or_placeholder (Some t)))]\<rparr>)"
    using post_answer_object [OF assms(2,3)] by simp
  have truthy: "or_placeholder (Some t) = t" if "truthy (Some t)"
    using that by (simp add: or_placeholder_def)
  have empty: "or_placeholder (Some (JStr [])) = JStr ''No response received''"
    by (simp add: or_placeholder_def)
  show ?thesis
    using request_block_ok [of s m e k p r v] assms(1)
    by (auto simp: answer truthy empty)
qed

theorem text_returned_when_not_empty_witness:
  "truthy (Some (JStr ''ok''))
   \<and> request_block (example_host (\<lambda>n. json_response 200 (answer_body (JStr ''ok'')))) 0
        ''key'' ''prompt''
        \<lparr>trace = [], geminiApiKey = Some ''key'', model = Some (JStr default_model)\<rparr>
      = (Inr (),
         \<lparr>trace = [Fetch (POST (generate_url default_model ''key'') ''prompt''),
                   PostMessage 0 (Response (JStr ''ok''))],
          geminiApiKey = Some ''key'', model = Some (JStr default_model)\<rparr>)
   \<and> post_answer (example_host (\<lambda>n. json_response 200 (answer_body (JStr [])))) 0
        \<lparr>status = 200, text_result = Inr ''{}'', json_result = Inr (answer_body (JStr []))\<rparr>
        (fresh (Some ''key''))
      = (Inr (), \<lparr>trace = [PostMessage 0 (Response (JStr ''No response received''))],
                  geminiApiKey = Some ''key'', model = None\<rparr>)"
  using text_returned_when_not_empty [of
      "\<lparr>status = 200, text_result = Inr ''{}'', json_result = Inr (answer_body (JStr ''ok''))\<rparr>"
      "[(''candidates'',
          JArr [JObj [(''content'', JObj [(''parts'', JArr [JObj [(''text'', JStr ''ok'')]])])]])]"
      "Some (JArr [JObj [(''content'', JObj [(''parts'', JArr [JObj [(''text'', JStr ''ok'')]])])]])"
      "Some (JObj [(''content'', JObj [(''parts'', JArr [JObj [(''text'', JStr ''ok'')]])])])"
      "Some (JObj [(''parts'', JArr [JObj [(''text'', JStr ''ok'')]])])"
      "Some (JArr [JObj [(''text'', JStr ''ok'')]])"
      "Some (JObj [(''text'', JStr ''ok'')])"
      "JStr ''ok''"
      "example_host (\<lambda>n. json_response 200 (answer_body (JStr ''ok'')))" 0
      "\<lparr>trace = [], geminiApiKey = Some ''key'', model = Some (JStr default_model)\<rparr>"
      default_model "''key''" "''prompt''"]
    text_returned_when_not_empty [of
      "\<lparr>status = 200, text_result = Inr ''{}'', json_result = Inr (answer_body (JStr []))\<rparr>"
      "[(''candidates'',
          JArr [JObj [(''content'', JObj [(''parts'', JArr [JObj [(''text'', JStr [])]])])]])]"
      "Some (JArr [JObj [(''content'', JObj [(''parts'', JArr [JObj [(''text'', JStr [])]])])]])"
      "Some (JObj [(''content'', JObj [(''parts'', JArr [JObj [(''text'', JStr [])]])])])"
      "Some (JObj [(''parts'', JArr [JObj [(''text'', JStr [])]])])"
      "Some (JArr [JObj [(''text'', JStr [])]])"
      "Some (JObj [(''text'', JStr [])])"
      "JStr []"
      "example_host (\<lambda>n. json_response 200 (answer_body (JStr [])))" 0
      "fresh (Some ''key'')" default_model "''key''" "''prompt''"]
  by (simp add: ok_def fresh_def answer_body_def example_host_def json_response_def)

text \<open>
  The claim as it stands fails on an empty text: the body has a first candidate whose
  first part has the text \<open>""\<close>, and the answer posted is the placeholder, not that text.
\<close>

theorem empty_text_is_replaced:
  "first_text (answer_body (JStr [])) = Inr (Some (JStr []))
   \<and> posted (effects_of (onDidReceiveMessage (resolveWebviewView constructor 0)
         (example_host (\<lambda>n. json_response 200 (answer_body (JStr [])))) (Chat ''hello''))
         (fresh (Some ''key'')))
       = [Loading True, Response (JStr ''No response received''), Loading False]
   \<and> posted (effects_of (onDidReceiveMessage (resolveWebviewView constructor 0)
         (example_host (\<lambda>n. json_response 200 (answer_body (JStr [])))) (Chat ''hello''))
         (fresh (Some ''key'')))
       \<noteq> [Loading True, Response (JStr []), Loading False]"
  by (simp add: monad_defs program_defs example_defs)


section \<open>Errors and their envelope\<close>

lemma chat_turn_failed:
  assumes "geminiApiKey s = Some k" and "k \<noteq> []"
    and "getWorkspaceContext e
           (s\<lparr>trace := trace s @ [PostMessage w (Loading True)],
              model := Some (JStr default_model)\<rparr>) = (Inr ctx, s1)"
    and "request_block e w k (fullPrompt ctx userMessage) s1 = (Inl x, s2)"
    and "model s2 = Some (JStr m)"
  shows "onDidReceiveMessage (resolveWebviewView this w) e (Chat userMessage) s =
     (Inr (), s2\<lparr>trace := trace s2 @
        [ConsoleError ''Chat error:'' (Some (Error (envelope m (message x)))),
         PostMessage w (ErrorMessage (''Error: '' @ envelope m (message x))),
         PostMessage w (Loading False)]\<rparr>)"
  using assms
  by (simp add: onDidReceiveMessage_def handleChat_def resolveWebviewView_def chat_block_def
      ask_model_def try_finally_def try_catch_def js_bind_def postMessage_def emit_def
      config_get_def set_model_def get_model_def await_def js_throw_def envelope_def)

text \<open>
  C8. Let the listing name its models by strings. A turn that issued a request ends with
  a response, or with one error event whose message is \<open>Error: \<close> followed by the
  envelope \<open>Failed with model m: cause\<close>, where \<open>m\<close> is the model of the last
  generateContent request: the default model when no retry was issued, the chosen model
  otherwise. The cause is the message of the error that the request block raised: when
  the block raises \<open>x\<close> while the variable \<open>model\<close> holds \<open>m\<close>, the turn logs and posts
  the envelope of \<open>m\<close> and the message of \<open>x\<close>, and ends loading.
\<close>

theorem errors_are_enveloped:
  assumes "\<And>k. string_names
      (fetch_result e (length (requests (trace s)) + 1) (GET (models_url k)))"
  shows "(requests (effects_of (onDidReceiveMessage (resolveWebviewView this w) e (Chat userMessage)) s) = []
      \<or> (\<exists>j. posted (effects_of (onDidReceiveMessage (resolveWebviewView this w) e (Chat userMessage)) s)
               = [Loading True, Response j, Loading False])
      \<or> (\<exists>k p cause.
            (requests (effects_of (onDidReceiveMessage (resolveWebviewView this w) e (Chat userMessage)) s)
               = [POST (generate_url default_model k) p]
             \<or> requests (effects_of (onDidReceiveMessage (resolveWebviewView this w) e (Chat userMessage)) s)
               = [POST (generate_url default_model k) p, GET (models_url k)])
            \<and> posted (effects_of (onDidReceiveMessage (resolveWebviewView this w) e (Chat userMessage)) s)
               = [Loading True, ErrorMessage (''Error: '' @ envelope default_model cause),
                  Loading False])
      \<or> (\<exists>k p m cause.
            requests (effects_of (onDidReceiveMessage (resolveWebviewView this w) e (Chat userMessage)) s)
               = [POST (generate_url default_model k) p, GET (models_url k),
                  POST (generate_url m k) p]
            \<and> posted (effects_of (onDidReceiveMessage (resolveWebviewView this w) e (Chat userMessage)) s)
               = [Loading True, ErrorMessage (''Error: '' @ envelope m cause), Loading False]))
    \<and> (geminiApiKey s = Some key \<and> key \<noteq> []
        \<and> getWorkspaceContext e
             (s\<lparr>trace := trace s @ [PostMessage w (Loading True)],
                model := Some (JStr default_model)\<rparr>) = (Inr ctx, s1)
        \<and> request_block e w key (fullPrompt ctx userMessage) s1 = (Inl x, s2)
        \<and> model s2 = Some (JStr m')
       \<longrightarrow> onDidReceiveMessage (resolveWebviewView this w) e (Chat userMessage) s =
            (Inr (), s2\<lparr>trace := trace s2 @
               [ConsoleError ''Chat error:'' (Some (Error (envelope m' (message x)))),
                PostMessage w (ErrorMessage (''Error: '' @ envelope m' (message x))),
                PostMessage w (Loading False)]\<rparr>))"
proof (intro conjI impI)
  let ?T = "effects_of (onDidReceiveMessage (resolveWebviewView this w) e (Chat userMessage)) s"
  obtain r s1 where chat: "chat_block e w userMessage s = (r, s1)"
    by (cases "chat_block e w userMessage s")
  from chat_block_shape [OF chat] obtain t where
    t: "trace s1 = trace s @ PostMessage w (Loading True) # t"
    and out: "(r = Inr () \<and> (\<exists>x. posted t = [x] \<and> terminal x))
           \<or> ((\<exists>x. r = Inl x) \<and> posted t = [])"
    by blast
  show "requests ?T = []
      \<or> (\<exists>j. posted ?T = [Loading True, Response j, Loading False])
      \<or> (\<exists>k p cause.
            (requests ?T = [POST (generate_url default_model k) p]
             \<or> requests ?T = [POST (generate_url default_model k) p, GET (models_url k)])
            \<and> posted ?T = [Loading True, ErrorMessage (''Error: '' @ envelope default_model cause),
                  Loading False])
      \<or> (\<exists>k p m cause.
            requests ?T = [POST (generate_url default_model k) p, GET (models_url k),
                  POST (generate_url m k) p]
            \<and> posted ?T = [Loading True, ErrorMessage (''Error: '' @ envelope m cause), Loading False])"
  proof (cases r)
    case (Inr u)
    from chat show ?thesis
    proof (cases rule: chat_block_cases)
      case no_key
      with Inr chat show ?thesis
        by (simp add: chat_turn handleChat_run [OF view_resolved] effects_of_def)
    next
      case (input_failed y)
      with Inr show ?thesis by simp
    next
      case (update_failed y k)
      with Inr show ?thesis by simp
    next
      case (stored k)
      from ask_model_shape [OF stored(3)] Inr obtain t' j where
        "trace s1 = trace s @ PostMessage w (Loading True) # t'" "posted t' = [Response j]"
        by auto
      with Inr chat have "posted ?T = [Loading True, Response j, Loading False]"
        by (simp add: chat_turn handleChat_run [OF view_resolved] effects_of_def)
      then show ?thesis by blast
    next
      case (entered k)
      from ask_model_shape [OF entered(3)] Inr obtain t' j where
        "trace s1 = trace s @ PostMessage w (Loading True) # InputBox # ConfigUpdate k # t'"
        "posted t' = [Response j]"
        by auto
      with Inr chat have "posted ?T = [Loading True, Response j, Loading False]"
        by (simp add: chat_turn handleChat_run [OF view_resolved] effects_of_def)
      then show ?thesis by blast
    qed
  next
    case (Inl y)
    with chat have run: "chat_block e w userMessage s = (Inl y, s1)" by simp
    from chat_block_envelope [OF run assms] obtain t' where
      t': "trace s1 = trace s @ PostMessage w (Loading True) # t'"
      and env: "requests t' = []
        \<or> (\<exists>k p cause. (requests t' = [POST (generate_url default_model k) p]
                        \<or> requests t' = [POST (generate_url default_model k) p, GET (models_url k)])
              \<and> y = Error (envelope default_model cause))
        \<or> (\<exists>k p m cause. requests t' = [POST (generate_url default_model k) p, GET (models_url k),
                                       POST (generate_url m k) p]
              \<and> y = Error (envelope m cause))"
      by blast
    from t t' have same: "t' = t" by simp
    from out Inl have quiet: "posted t = []" by auto
    from run t have eff: "?T = PostMessage w (Loading True) # t @
        [ConsoleError ''Chat error:'' (Some y),
         PostMessage w (ErrorMessage (''Error: '' @ message y)),
         PostMessage w (Loading False)]"
      by (simp add: chat_turn handleChat_run [OF view_resolved] effects_of_def)
    from eff have reqs: "requests ?T = requests t" by simp
    from eff quiet have posts:
      "posted ?T = [Loading True, ErrorMessage (''Error: '' @ message y), Loading False]"
      by simp
    from env show ?thesis
      unfolding reqs posts same by fastforce
  qed
next
  assume "geminiApiKey s = Some key \<and> key \<noteq> []
        \<and> getWorkspaceContext e
             (s\<lparr>trace := trace s @ [PostMessage w (Loading True)],
                model := Some (JStr default_model)\<rparr>) = (Inr ctx, s1)
        \<and> request_block e w key (fullPrompt ctx userMessage) s1 = (Inl x, s2)
        \<and> model s2 = Some (JStr m')"
  then show "onDidReceiveMessage (resolveWebviewView this w) e (Chat userMessage) s =
            (Inr (), s2\<lparr>trace := trace s2 @
               [ConsoleError ''Chat error:'' (Some (Error (envelope m' (message x)))),
                PostMessage w (ErrorMessage (''Error: '' @ envelope m' (message x))),
                PostMessage w (Loading False)]\<rparr>)"
    using chat_turn_failed [of s key e w ctx s1 userMessage x s2 m' this] by blast
qed


theorem errors_are_enveloped_witness:
  "(\<forall>k. string_names (fetch_result (fallback_host (text_response 500 ''down''))
          (length (requests (trace (fresh (Some ''key'')))) + 1) (GET (models_url k))))
   \<and> getWorkspaceContext (fallback_host (text_response 500 ''down''))
        \<lparr>trace = [PostMessage 0 (Loading True)], geminiApiKey = Some ''key'',
         model = Some (JStr default_model)\<rparr>
       = (Inr [], \<lparr>trace = [PostMessage 0 (Loading True), FindFiles],
                   geminiApiKey = Some ''key'', model = Some (JStr default_model)\<rparr>)
   \<and> request_block (fallback_host (text_response 500 ''down'')) 0 ''key'' (fullPrompt [] ''hello'')
        \<lparr>trace = [PostMessage 0 (Loading True), FindFiles],
         geminiApiKey = Some ''key'', model = Some (JStr default_model)\<rparr>
       = (Inl (Error ''API Error: 500 - down''),
          \<lparr>trace = [PostMessage 0 (Loading True), FindFiles,
                    Fetch (POST (generate_url default_model ''key'') (fullPrompt [] ''hello'')),
                    Fetch (GET (models_url ''key'')),
                    Fetch (POST (generate_url ''models/gemini-1.5-pro'' ''key'')
                      (fullPrompt [] ''hello''))],
           geminiApiKey = Some ''key'', model = Some (JStr ''models/gemini-1.5-pro'')\<rparr>)
   \<and> posted (effects_of (onDidReceiveMessage (resolveWebviewView constructor 0)
         (fallback_host (text_response 500 ''down'')) (Chat ''hello'')) (fresh (Some ''key'')))
       = [Loading True,
          ErrorMessage (''Error: '' @ envelope ''models/gemini-1.5-pro'' ''API Error: 500 - down''),
          Loading False]"
  using errors_are_enveloped [of "fallback_host (text_response 500 ''down'')"
      "fresh (Some ''key'')" constructor 0 "''hello''" "''key''" "[]"
      "\<lparr>trace = [PostMessage 0 (Loading True), FindFiles],
        geminiApiKey = Some ''key'', model = Some (JStr default_model)\<rparr>"
      "Error ''API Error: 500 - down''"
      "\<lparr>trace = [PostMessage 0 (Loading True), FindFiles,
                 Fetch (POST (generate_url default_model ''key'') (fullPrompt [] ''hello'')),
                 Fetch (GET (models_url ''key'')),
                 Fetch (POST (generate_url ''models/gemini-1.5-pro'' ''key'')
                   (fullPrompt [] ''hello''))],
        geminiApiKey = Some ''key'', model = Some (JStr ''models/gemini-1.5-pro'')\<rparr>"
      "''models/gemini-1.5-pro''"]
  by (simp add: monad_defs program_defs example_defs string_names_def show_nat.simps)

section \<open>What a status triggers\<close>

lemma request_block_rejected:
  assumes "model s = Some (JStr m)"
    and "fetch_result e (length (requests (trace s))) (POST (generate_url m k) p) = Inr r0"
    and "\<not> ok r0" and "status r0 \<noteq> 404" and "text_result r0 = Inr b"
  shows "request_block e v k p s =
     (Inl (Error (''API Error: '' @ show_nat (status r0) @ '' - '' @ b)),
      s\<lparr>trace := trace s @ [Fetch (POST (generate_url m k) p)]\<rparr>)"
  using assms
  by (simp add: request_block_def generateContent_def throw_api_error_def js_bind_def
      get_model_def await_def fetch_def js_throw_def)

lemma post_answer_error:
  assumes "json_result r = Inr (JObj fs)" and "map_of fs ''error'' = Some (JObj ef)"
    and "map_of ef ''message'' = Some (JStr msg)"
  shows "post_answer e v r s = (Inl (Error msg), s)"
  using assms
  by (simp add: post_answer_def js_bind_def await_def js_throw_def)

lemma request_block_404:
  assumes "request_block e v k p s = (r, s')" and "model s = Some (JStr m)"
    and "fetch_result e (length (requests (trace s))) (POST (generate_url m k) p) = Inr r0"
    and "status r0 = 404"
  shows "\<exists>t. trace s' = trace s @ Fetch (POST (generate_url m k) p) # Fetch (GET (models_url k)) # t"
  using assms
  unfolding request_block_def
  by (auto elim!: js_bindE
      dest!: generateContent_shape getAvailableModels_shape post_answer_shape throw_api_error_shape
      simp: await_def set_model_def ok_def split: if_splits)

lemma request_block_retry_rejected:
  assumes "model s = Some (JStr m)"
    and "fetch_result e (length (requests (trace s))) (POST (generate_url m k) p) = Inr r0"
    and "status r0 = 404"
    and "getAvailableModels e k (s\<lparr>trace := trace s @ [Fetch (POST (generate_url m k) p)]\<rparr>)
           = (Inr ms, s1)"
    and "chooseFallback ''gemini-1.5'' ms = Inr (Some (JStr m1))"
    and "fetch_result e (length (requests (trace s)) + 2) (POST (generate_url m1 k) p) = Inr r1"
    and "\<not> ok r1" and "text_result r1 = Inr b"
  shows "request_block e v k p s =
     (Inl (Error (''API Error: '' @ show_nat (status r1) @ '' - '' @ b)),
      s1\<lparr>model := Some (JStr m1), trace := trace s1 @ [Fetch (POST (generate_url m1 k) p)]\<rparr>)"
proof -
  from getAvailableModels_shape [OF assms(4)] have
    "length (requests (trace s1)) = length (requests (trace s)) + 2"
    by auto
  with assms show ?thesis
    by (simp add: request_block_def generateContent_def throw_api_error_def js_bind_def
        get_model_def set_model_def await_def fetch_def js_throw_def ok_def)
qed


lemma request_block_retry_ok:
  assumes "model s = Some (JStr m)"
    and "fetch_result e (length (requests (trace s))) (POST (generate_url m k) p) = Inr r0"
    and "status r0 = 404"
    and "getAvailableModels e k (s\<lparr>trace := trace s @ [Fetch (POST (generate_url m k) p)]\<rparr>)
           = (Inr ms, s1)"
    and "chooseFallback ''gemini-1.5'' ms = Inr (Some (JStr m1))"
    and "fetch_result e (length (requests (trace s)) + 2) (POST (generate_url m1 k) p) = Inr r1"
    and "ok r1"
  shows "request_block e v k p s =
     post_answer e v r1
       (s1\<lparr>model := Some (JStr m1), trace := trace s1 @ [Fetch (POST (generate_url m1 k) p)]\<rparr>)"
proof -
  from getAvailableModels_shape [OF assms(4)] have
    "length (requests (trace s1)) = length (requests (trace s)) + 2"
    by auto
  with assms show ?thesis
    by (simp add: request_block_def generateContent_def js_bind_def
        get_model_def set_model_def await_def fetch_def ok_def)
qed

lemma fallback_iff_404:
  assumes "model s = Some (JStr m)"
  shows "(GET (models_url k) \<in> set (requests (effects_of (request_block e v k p) s)))
     = (\<exists>r. fetch_result e (length (requests (trace s))) (POST (generate_url m k) p) = Inr r
            \<and> status r = 404)"
proof -
  obtain r s' where run: "request_block e v k p s = (r, s')"
    by (cases "request_block e v k p s")
  from request_block_shape [OF run assms] obtain t where
    t: "trace s' = trace s @ Fetch (POST (generate_url m k) p) # t"
    and only: "requests t \<noteq> [] \<longrightarrow>
          (\<exists>r0. fetch_result e (length (requests (trace s))) (POST (generate_url m k) p) = Inr r0
                \<and> status r0 = 404)"
    by blast
  from run t have eff: "effects_of (request_block e v k p) s
      = Fetch (POST (generate_url m k) p) # t"
    by (simp add: effects_of_def)
  show ?thesis
  proof
    assume "GET (models_url k) \<in> set (requests (effects_of (request_block e v k p) s))"
    with eff have "requests t \<noteq> []" by auto
    with only show "\<exists>r. fetch_result e (length (requests (trace s)))
        (POST (generate_url m k) p) = Inr r \<and> status r = 404"
      by blast
  next
    assume "\<exists>r. fetch_result e (length (requests (trace s)))
        (POST (generate_url m k) p) = Inr r \<and> status r = 404"
    then obtain r0 where
      "fetch_result e (length (requests (trace s))) (POST (generate_url m k) p) = Inr r0"
      "status r0 = 404"
      by blast
    from request_block_404 [OF run assms this] obtain t' where
      "trace s' = trace s @ Fetch (POST (generate_url m k) p) # Fetch (GET (models_url k)) # t'"
      by blast
    with run show "GET (models_url k) \<in> set (requests (effects_of (request_block e v k p) s))"
      by (simp add: effects_of_def)
  qed
qed

text \<open>
  C3, as amended. The code has no error value for a model that was not found. For the
  request block started with the model \<open>m\<close>:
  a first response whose status is neither 2xx nor 404 raises the error
  \<open>API Error: status - body\<close>, and no further request is issued;
  a first response with an error object in its body raises an error with the message of
  that object, and no further request is issued;
  the listing is requested exactly when the first response has the status 404;
  a response to the retry whose status is not 2xx, 404 included, raises the error
  \<open>API Error: status - body\<close>, and the retry is the last request;
  a response to the retry with an error object in its body raises an error with the
  message of that object, and the retry is the last request.
\<close>

theorem status_triggers:
  assumes "model s = Some (JStr m)"
  shows "(fetch_result e (length (requests (trace s))) (POST (generate_url m k) p) = Inr r0
          \<and> \<not> ok r0 \<and> status r0 \<noteq> 404 \<and> text_result r0 = Inr b
        \<longrightarrow> request_block e v k p s =
             (Inl (Error (''API Error: '' @ show_nat (status r0) @ '' - '' @ b)),
              s\<lparr>trace := trace s @ [Fetch (POST (generate_url m k) p)]\<rparr>))
     \<and> (fetch_result e (length (requests (trace s))) (POST (generate_url m k) p) = Inr r0
          \<and> ok r0 \<and> json_result r0 = Inr (JObj fs) \<and> map_of fs ''error'' = Some (JObj ef)
          \<and> map_of ef ''message'' = Some (JStr msg)
        \<longrightarrow> request_block e v k p s =
             (Inl (Error msg), s\<lparr>trace := trace s @ [Fetch (POST (generate_url m k) p)]\<rparr>))
     \<and> ((GET (models_url k) \<in> set (requests (effects_of (request_block e v k p) s)))
          = (\<exists>r. fetch_result e (length (requests (trace s))) (POST (generate_url m k) p) = Inr r
                 \<and> status r = 404))
     \<and> (fetch_result e (length (requests (trace s))) (POST (generate_url m k) p) = Inr r0
          \<and> status r0 = 404
          \<and> getAvailableModels e k (s\<lparr>trace := trace s @ [Fetch (POST (generate_url m k) p)]\<rparr>)
              = (Inr ms, s1)
          \<and> chooseFallback ''gemini-1.5'' ms = Inr (Some (JStr m1))
          \<and> fetch_result e (length (requests (trace s)) + 2) (POST (generate_url m1 k) p) = Inr r1
          \<and> \<not> ok r1 \<and> text_result r1 = Inr b1
        \<longrightarrow> request_block e v k p s =
             (Inl (Error (''API Error: '' @ show_nat (status r1) @ '' - '' @ b1)),
              s1\<lparr>model := Some (JStr m1),
                 trace := trace s1 @ [Fetch (POST (generate_url m1 k) p)]\<rparr>))
     \<and> (fetch_result e (length (requests (trace s))) (POST (generate_url m k) p) = Inr r0
          \<and> status r0 = 404
          \<and> getAvailableModels e k (s\<lparr>trace := trace s @ [Fetch (POST (generate_url m k) p)]\<rparr>)
              = (Inr ms, s1)
          \<and> chooseFallback ''gemini-1.5'' ms = Inr (Some (JStr m1))
          \<and> fetch_result e (length (requests (trace s)) + 2) (POST (generate_url m1 k) p) = Inr r1
          \<and> ok r1 \<and> json_result r1 = Inr (JObj fs1) \<and> map_of fs1 ''error'' = Some (JObj ef1)
          \<and> map_of ef1 ''message'' = Some (JStr msg1)
        \<longrightarrow> request_block e v k p s =
             (Inl (Error msg1),
              s1\<lparr>model := Some (JStr m1),
                 trace := trace s1 @ [Fetch (POST (generate_url m1 k) p)]\<rparr>))"
proof (intro conjI impI)
  assume "fetch_result e (length (requests (trace s))) (POST (generate_url m k) p) = Inr r0
          \<and> \<not> ok r0 \<and> status r0 \<noteq> 404 \<and> text_result r0 = Inr b"
  with assms show "request_block e v k p s =
             (Inl (Error (''API Error: '' @ show_nat (status r0) @ '' - '' @ b)),
              s\<lparr>trace := trace s @ [Fetch (POST (generate_url m k) p)]\<rparr>)"
    by (simp add: request_block_rejected)
next
  assume "fetch_result e (length (requests (trace s))) (POST (generate_url m k) p) = Inr r0
          \<and> ok r0 \<and> json_result r0 = Inr (JObj fs) \<and> map_of fs ''error'' = Some (JObj ef)
          \<and> map_of ef ''message'' = Some (JStr msg)"
  with assms show "request_block e v k p s =
             (Inl (Error msg), s\<lparr>trace := trace s @ [Fetch (POST (generate_url m k) p)]\<rparr>)"
    by (simp add: request_block_ok post_answer_error)
next
  show "(GET (models_url k) \<in> set (requests (effects_of (request_block e v k p) s)))
          = (\<exists>r. fetch_result e (length (requests (trace s))) (POST (generate_url m k) p) = Inr r
                 \<and> status r = 404)"
    by (rule fallback_iff_404 [OF assms])
next
  assume "fetch_result e (length (requests (trace s))) (POST (generate_url m k) p) = Inr r0
          \<and> status r0 = 404
          \<and> getAvailableModels e k (s\<lparr>trace := trace s @ [Fetch (POST (generate_url m k) p)]\<rparr>)
              = (Inr ms, s1)
          \<and> chooseFallback ''gemini-1.5'' ms = Inr (Some (JStr m1))
          \<and> fetch_result e (length (requests (trace s)) + 2) (POST (generate_url m1 k) p) = Inr r1
          \<and> \<not> ok r1 \<and> text_result r1 = Inr b1"
  with assms show "request_block e v k p s =
             (Inl (Error (''API Error: '' @ show_nat (status r1) @ '' - '' @ b1)),
              s1\<lparr>model := Some (JStr m1),
                 trace := trace s1 @ [Fetch (POST (generate_url m1 k) p)]\<rparr>)"
    using request_block_retry_rejected [of s m e k p r0 ms s1 m1 r1 b1 v] by blast
next
  assume "fetch_result e (length (requests (trace s))) (POST (generate_url m k) p) = Inr r0
          \<and> status r0 = 404
          \<and> getAvailableModels e k (s\<lparr>trace := trace s @ [Fetch (POST (generate_url m k) p)]\<rparr>)
              = (Inr ms, s1)
          \<and> chooseFallback ''gemini-1.5'' ms = Inr (Some (JStr m1))
          \<and> fetch_result e (length (requests (trace s)) + 2) (POST (generate_url m1 k) p) = Inr r1
          \<and> ok r1 \<and> json_result r1 = Inr (JObj fs1) \<and> map_of fs1 ''error'' = Some (JObj ef1)
          \<and> map_of ef1 ''message'' = Some (JStr msg1)"
  with assms show "request_block e v k p s =
             (Inl (Error msg1),
              s1\<lparr>model := Some (JStr m1),
                 trace := trace s1 @ [Fetch (POST (generate_url m1 k) p)]\<rparr>)"
    using request_block_retry_ok [of s m e k p r0 ms s1 m1 r1 v]
    by (simp add: post_answer_error)
qed

theorem status_triggers_witness:
  "model \<lparr>trace = [], geminiApiKey = Some ''key'', model = Some (JStr default_model)\<rparr>
     = Some (JStr default_model)
   \<and> GET (models_url ''key'') \<in> set (requests (effects_of
        (request_block (fallback_host (text_response 404 ''gone'')) 0 ''key'' ''prompt'')
        \<lparr>trace = [], geminiApiKey = Some ''key'', model = Some (JStr default_model)\<rparr>))
   \<and> request_block (fallback_host (text_response 404 ''gone'')) 0 ''key'' ''prompt''
        \<lparr>trace = [], geminiApiKey = Some ''key'', model = Some (JStr default_model)\<rparr>
      = (Inl (Error ''API Error: 404 - gone''),
         \<lparr>trace = [Fetch (POST (generate_url default_model ''key'') ''prompt''),
                   Fetch (GET (models_url ''key'')),
                   Fetch (POST (generate_url ''models/gemini-1.5-pro'' ''key'') ''prompt'')],
          geminiApiKey = Some ''key'', model = Some (JStr ''models/gemini-1.5-pro'')\<rparr>)
   \<and> request_block (example_host (\<lambda>n. text_response 500 ''down'')) 0 ''key'' ''prompt''
        \<lparr>trace = [], geminiApiKey = Some ''key'', model = Some (JStr default_model)\<rparr>
      = (Inl (Error ''API Error: 500 - down''),
         \<lparr>trace = [Fetch (POST (generate_url default_model ''key'') ''prompt'')],
          geminiApiKey = Some ''key'', model = Some (JStr default_model)\<rparr>)
   \<and> request_block
        (example_host (\<lambda>n. json_response 200
           (JObj [(''error'', JObj [(''message'', JStr ''quota exceeded'')])])))
        0 ''key'' ''prompt''
        \<lparr>trace = [], geminiApiKey = Some ''key'', model = Some (JStr default_model)\<rparr>
      = (Inl (Error ''quota exceeded''),
         \<lparr>trace = [Fetch (POST (generate_url default_model ''key'') ''prompt'')],
          geminiApiKey = Some ''key'', model = Some (JStr default_model)\<rparr>)
   \<and> request_block
        (fallback_host (json_response 200
           (JObj [(''error'', JObj [(''message'', JStr ''quota exceeded'')])])))
        0 ''key'' ''prompt''
        \<lparr>trace = [], geminiApiKey = Some ''key'', model = Some (JStr default_model)\<rparr>
      = (Inl (Error ''quota exceeded''),
         \<lparr>trace = [Fetch (POST (generate_url default_model ''key'') ''prompt''),
                   Fetch (GET (models_url ''key'')),
                   Fetch (POST (generate_url ''models/gemini-1.5-pro'' ''key'') ''prompt'')],
          geminiApiKey = Some ''key'', model = Some (JStr ''models/gemini-1.5-pro'')\<rparr>)"
  using status_triggers [of
      "\<lparr>trace = [], geminiApiKey = Some ''key'', model = Some (JStr default_model)\<rparr>"
      default_model "fallback_host (text_response 404 ''gone'')" "''key''" "''prompt''"
      "\<lparr>status = 404, text_result = Inr ''not found'',
        json_result = Inl (Error ''Unexpected token in JSON'')\<rparr>"
      "''not found''" 0 "[]" "[]" "[]"
      "[Some (JStr ''models/m-1.0''), Some (JStr ''models/gemini-1.5-pro'')]"
      "\<lparr>trace = [Fetch (POST (generate_url default_model ''key'') ''prompt''),
                 Fetch (GET (models_url ''key''))],
        geminiApiKey = Some ''key'', model = Some (JStr default_model)\<rparr>"
      "''models/gemini-1.5-pro''"
      "\<lparr>status = 404, text_result = Inr ''gone'',
        json_result = Inl (Error ''Unexpected token in JSON'')\<rparr>"
      "''gone''"]
    status_triggers [of
      "\<lparr>trace = [], geminiApiKey = Some ''key'', model = Some (JStr default_model)\<rparr>"
      default_model "example_host (\<lambda>n. text_response 500 ''down'')" "''key''" "''prompt''"
      "\<lparr>status = 500, text_result = Inr ''down'',
        json_result = Inl (Error ''Unexpected token in JSON'')\<rparr>"
      "''down''" 0]
    status_triggers [of
      "\<lparr>trace = [], geminiApiKey = Some ''key'', model = Some (JStr default_model)\<rparr>"
      default_model
      "example_host (\<lambda>n. json_response 200
           (JObj [(''error'', JObj [(''message'', JStr ''quota exceeded'')])]))"
      "''key''" "''prompt''"
      "\<lparr>status = 200, text_result = Inr ''{}'',
        json_result = Inr (JObj [(''error'', JObj [(''message'', JStr ''quota exceeded'')])])\<rparr>"
      "[]" 0
      "[(''error'', JObj [(''message'', JStr ''quota exceeded'')])]"
      "[(''message'', JStr ''quota exceeded'')]" "''quota exceeded''"]
    status_triggers [of
      "\<lparr>trace = [], geminiApiKey = Some ''key'', model = Some (JStr default_model)\<rparr>"
      default_model
      "fallback_host (json_response 200
           (JObj [(''error'', JObj [(''message'', JStr ''quota exceeded'')])]))"
      "''key''" "''prompt''"
      "\<lparr>status = 404, text_result = Inr ''not found'',
        json_result = Inl (Error ''Unexpected token in JSON'')\<rparr>"
      "''not found''" 0 "[]" "[]" "[]"
      "[Some (JStr ''models/m-1.0''), Some (JStr ''models/gemini-1.5-pro'')]"
      "\<lparr>trace = [Fetch (POST (generate_url default_model ''key'') ''prompt''),
                 Fetch (GET (models_url ''key''))],
        geminiApiKey = Some ''key'', model = Some (JStr default_model)\<rparr>"
      "''models/gemini-1.5-pro''"
      "\<lparr>status = 200, text_result = Inr ''{}'',
        json_result = Inr (JObj [(''error'', JObj [(''message'', JStr ''quota exceeded'')])])\<rparr>"
      "[]"
      "[(''error'', JObj [(''message'', JStr ''quota exceeded'')])]"
      "[(''message'', JStr ''quota exceeded'')]" "''quota exceeded''"]
  by (simp add: monad_defs program_defs example_defs show_nat.simps)

text \<open>
  The claim as it stands fails on the retry: its response has the status 404, no listing
  is requested after it, and the error posted has the form of every other status.
\<close>

theorem retry_404_is_generic:
  "fetch_result (fallback_host (text_response 404 ''gone'')) 2
      (POST (generate_url ''models/gemini-1.5-pro'' ''key'') (fullPrompt [] ''hello''))
     = Inr \<lparr>status = 404, text_result = Inr ''gone'',
            json_result = Inl (Error ''Unexpected token in JSON'')\<rparr>
   \<and> requests (effects_of (onDidReceiveMessage (resolveWebviewView constructor 0)
         (fallback_host (text_response 404 ''gone'')) (Chat ''hello'')) (fresh (Some ''key'')))
       = [POST (generate_url default_model ''key'') (fullPrompt [] ''hello''),
          GET (models_url ''key''),
          POST (generate_url ''models/gemini-1.5-pro'' ''key'') (fullPrompt [] ''hello'')]
   \<and> posted (effects_of (onDidReceiveMessage (resolveWebviewView constructor 0)
         (fallback_host (text_response 404 ''gone'')) (Chat ''hello'')) (fresh (Some ''key'')))
       = [Loading True,
          ErrorMessage ''Error: Failed with model models/gemini-1.5-pro: API Error: 404 - gone'',
          Loading False]
   \<and> posted (effects_of (onDidReceiveMessage (resolveWebviewView constructor 0)
         (fallback_host (text_response 500 ''gone'')) (Chat ''hello'')) (fresh (Some ''key'')))
       = [Loading True,
          ErrorMessage ''Error: Failed with model models/gemini-1.5-pro: API Error: 500 - gone'',
          Loading False]"
  by (simp add: monad_defs program_defs example_defs show_nat.simps)


end
